theory Spec2Isabelle
  imports Main
begin

section \<open>Data model of draftDbOps.py\<close>

text \<open>
  The module works on the dictionaries produced by \<open>queryWiki()\<close> and on an sqlite
  database with the four tables \<open>game\<close>, \<open>team\<close>, \<open>ban\<close> and \<open>pick\<close>.
  Python exceptions are values of \<open>error\<close>; a function that can raise returns a sum
  whose left side carries the exception.
\<close>

datatype error = AttributeError | KeyError string | NameError string

text \<open>
  \<open>game["bans"]\<close> and \<open>game["picks"]\<close> are dictionaries with the two keys
  \<open>"blue"\<close> and \<open>"red"\<close>.
\<close>

record 'a sides =
  blue :: "'a list"
  red :: "'a list"

text \<open>
  One entry of \<open>gameData\<close>. The code tests \<open>season\<close> and \<open>split\<close> against
  \<open>None\<close>; every other field is used as a plain value.
\<close>

record gameData =
  region :: string
  season :: "string option"
  split :: "string option"
  tourn_game_id :: int
  blue_team :: string
  red_team :: string
  winning_team :: int
  bans :: "string sides"
  picks :: "(string \<times> int) sides"

section \<open>Tournament key: getTournamentData\<close>

definition regionsDict :: "(string \<times> string) list" where
  "regionsDict = [(''North_America'', ''NA''), (''Europe'', ''EU''), (''LCK'', ''LCK''),
                  (''LPL'', ''LPL''), (''LMS'', ''LMS'')]"

definition internationalEventsDict :: "(string \<times> string) list" where
  "internationalEventsDict = [(''Mid-Season_Invitational'', ''MSI''), (''Rift_Rivals'', ''RR''),
                              (''World_Championship'', ''WRLDS'')]"

text \<open>\<open>d[k]\<close> on a dictionary: the value, or \<open>KeyError\<close>.\<close>

definition dict_get :: "(string \<times> string) list \<Rightarrow> string \<Rightarrow> error + string" where
  "dict_get d k = (case map_of d k of None \<Rightarrow> Inl (KeyError k) | Some v \<Rightarrow> Inr v)"

text \<open>The character class \<open>[0-9]\<close>.\<close>

definition is_digit :: "char \<Rightarrow> bool" where
  "is_digit c = (c \<in> set ''0123456789'')"

text \<open>
  \<open>re.search("([0-9]+)", s)\<close>: the leftmost, longest run of digits of \<open>s\<close>; \<open>None\<close>
  when \<open>s\<close> has no digit (the \<open>.group(0)\<close> that follows then raises
  \<open>AttributeError\<close>).
\<close>

definition re_search_digits :: "string \<Rightarrow> string option" where
  "re_search_digits s =
     (let t = dropWhile (\<lambda>c. \<not> is_digit c) s
      in if t = [] then None else Some (takeWhile is_digit t))"

text \<open>
  The pattern \<open>_?[0-9]+_?\<close> tried at the start of a string: the rest of the string
  after the match, or \<open>None\<close>. \<open>digits_then_us\<close> is the part \<open>[0-9]+_?\<close>; both
  quantifiers are greedy and nothing follows them, so the longest run of digits and an
  underscore after it are taken. A leading underscore is part of the match only when a
  digit follows it.
\<close>

definition digits_then_us :: "string \<Rightarrow> string option" where
  "digits_then_us s =
     (if takeWhile is_digit s = [] then None
      else Some (case dropWhile is_digit s of
                   [] \<Rightarrow> []
                 | c # r \<Rightarrow> if c = CHR ''_'' then r else c # r))"

definition re_match_at :: "string \<Rightarrow> string option" where
  "re_match_at s =
     (case s of
        [] \<Rightarrow> None
      | c # t \<Rightarrow> if c = CHR ''_'' then digits_then_us t else digits_then_us s)"

lemma digits_then_us_shorter: "digits_then_us s = Some r \<Longrightarrow> length r < length s"
proof -
  assume a: "digits_then_us s = Some r"
  define d where "d = dropWhile is_digit s"
  from a have ne: "takeWhile is_digit s \<noteq> []"
    by (auto simp: digits_then_us_def split: if_splits)
  from a ne have r: "r = (case d of [] \<Rightarrow> [] | c # r \<Rightarrow> if c = CHR ''_'' then r else c # r)"
    by (simp add: digits_then_us_def d_def)
  have "length s = length (takeWhile is_digit s) + length d"
    unfolding d_def by (metis length_append takeWhile_dropWhile_id)
  moreover have "0 < length (takeWhile is_digit s)"
    using ne by simp
  moreover have "length r \<le> length d"
    unfolding r by (cases d) auto
  ultimately show ?thesis by linarith
qed

lemma re_match_at_shorter: "re_match_at s = Some r \<Longrightarrow> length r < length s"
  by (cases s) (auto simp: re_match_at_def split: if_splits dest: digits_then_us_shorter)

text \<open>
  \<open>re.split("_?[0-9]+_?", s)\<close>: the pieces of \<open>s\<close> between the successive leftmost
  matches. \<open>cur\<close> is the piece being collected.
\<close>

function re_split_from :: "string \<Rightarrow> string \<Rightarrow> string list" where
  "re_split_from cur [] = [cur]"
| "re_split_from cur (c # cs) =
     (case re_match_at (c # cs) of
        Some r \<Rightarrow> cur # re_split_from [] r
      | None \<Rightarrow> re_split_from (cur @ [c]) cs)"
  by pat_completeness auto
termination
  by (relation "measure (\<lambda>(cur, s). length s)") (auto dest: re_match_at_shorter)

definition re_split :: "string \<Rightarrow> string list" where
  "re_split s = re_split_from [] s"

text \<open>\<open>sep.join(xs)\<close>.\<close>

fun join :: "string \<Rightarrow> string list \<Rightarrow> string" where
  "join sep [] = []"
| "join sep [x] = x"
| "join sep (x # y # ys) = x @ sep @ join sep (y # ys)"

definition getTournamentData :: "gameData \<Rightarrow> error + string" where
  "getTournamentData gameData =
     (case (case season gameData of
              None \<Rightarrow> re_search_digits (region gameData)
            | Some s \<Rightarrow> re_search_digits s) of
        None \<Rightarrow> Inl AttributeError
      | Some year \<Rightarrow>
          (case (case split gameData of
                   None \<Rightarrow> dict_get internationalEventsDict (join [] (re_split (region gameData)))
                 | Some sp \<Rightarrow>
                     (case dict_get regionsDict (region gameData) of
                        Inl e \<Rightarrow> Inl e
                      | Inr abbrv \<Rightarrow> Inr (join ''/'' [sp, abbrv]))) of
             Inl e \<Rightarrow> Inl e
           | Inr tournamentData \<Rightarrow> Inr (join ''/'' [year, tournamentData])))"

section \<open>The database behind the cursor\<close>

text \<open>
  Modelled from the spec: the schema of the database is created outside this module and
  is not in the source. The data model gives the columns of the four tables and says
  that \<open>id\<close> of \<open>game\<close> and of \<open>team\<close> is generated by the store; the columns
  below are those the statements of this module name. A table is the list of its rows
  in insertion order; \<open>fetchone()\<close> after a \<open>SELECT\<close> is the first matching row,
  or \<open>None\<close>.
\<close>

record game_row =
  game_id :: nat
  game_tournament :: string
  game_tourn_game_id :: int
  game_blue_teamid :: nat
  game_red_teamid :: nat
  game_winning_team :: int

record team_row =
  team_id :: nat
  team_region :: "string option"
  team_display_name :: string

record ban_row =
  ban_game_id :: nat
  ban_champion_id :: "nat option"
  ban_selection_order :: nat
  ban_side_id :: nat

record pick_row =
  pick_game_id :: nat
  pick_champion_id :: "nat option"
  pick_position_id :: int
  pick_selection_order :: nat
  pick_side_id :: nat

text \<open>
  The lines the module prints, one constructor per \<open>print\<close> statement; \<open>N\<close> is the
  id that is formatted into the line.
\<close>

datatype printed =
    GameNotFoundWarning  \<comment> \<open>Warning: Game not found. Attempting to add game.\<close>
  | GameExists nat  \<comment> \<open>game N already exists in table.. skipping\<close>
  | TeamNotFoundWarning  \<comment> \<open>*WARNING: When inserting game-- team not found. Attempting to add teams\<close>
  | BansExist nat  \<comment> \<open>Bans for game N already exists in table.. skipping\<close>
  | PicksExist nat  \<comment> \<open>Picks for game N already exists in table.. skipping\<close>

text \<open>What a call can change: the four tables and the standard output.\<close>

record state =
  tbl_game :: "game_row list"
  tbl_team :: "team_row list"
  tbl_ban :: "ban_row list"
  tbl_pick :: "pick_row list"
  stdout :: "printed list"

definition print_line :: "state \<Rightarrow> printed \<Rightarrow> state" where
  "print_line cursor line = cursor\<lparr>stdout := stdout cursor @ [line]\<rparr>"

text \<open>
  Modelled from the spec: the generated \<open>id\<close> of a new row (the schema is not in the
  source). It is one more than the largest \<open>id\<close> of the table, and 1 in an empty table.
\<close>

definition new_id :: "nat list \<Rightarrow> nat" where
  "new_id ids = Suc (fold max ids 0)"

text \<open>\<open>SELECT id FROM game WHERE tournament=? AND tourn_game_id=?\<close>, then \<open>fetchone()\<close>.\<close>

definition select_game_id :: "state \<Rightarrow> string \<times> int \<Rightarrow> nat option" where
  "select_game_id cursor vals =
     map_option game_id
       (find (\<lambda>r. game_tournament r = fst vals \<and> game_tourn_game_id r = snd vals)
          (tbl_game cursor))"

text \<open>\<open>SELECT * FROM team WHERE display_name=?\<close>, then \<open>fetchone()\<close>.\<close>

definition select_team :: "state \<Rightarrow> string \<Rightarrow> team_row option" where
  "select_team cursor name = find (\<lambda>r. team_display_name r = name) (tbl_team cursor)"

text \<open>\<open>SELECT id FROM team WHERE display_name=?\<close>, then \<open>fetchone()\<close>.\<close>

definition select_team_id :: "state \<Rightarrow> string \<Rightarrow> nat option" where
  "select_team_id cursor name = map_option team_id (select_team cursor name)"

text \<open>\<open>SELECT game_id FROM ban WHERE game_id=?\<close>, then \<open>fetchone()\<close>; likewise for \<open>pick\<close>.\<close>

definition select_ban :: "state \<Rightarrow> nat \<Rightarrow> nat option" where
  "select_ban cursor gameId =
     map_option ban_game_id (find (\<lambda>r. ban_game_id r = gameId) (tbl_ban cursor))"

definition select_pick :: "state \<Rightarrow> nat \<Rightarrow> nat option" where
  "select_pick cursor gameId =
     map_option pick_game_id (find (\<lambda>r. pick_game_id r = gameId) (tbl_pick cursor))"

text \<open>The four \<open>INSERT\<close> statements; \<open>vals\<close> are their parameters in order.\<close>

definition insert_game :: "state \<Rightarrow> string \<times> int \<times> nat \<times> nat \<times> int \<Rightarrow> state" where
  "insert_game cursor vals =
     (case vals of (tournament, tournGameId, blueTeamId, redTeamId, winner) \<Rightarrow>
        cursor\<lparr>tbl_game := tbl_game cursor @
          [\<lparr>game_id = new_id (map game_id (tbl_game cursor)), game_tournament = tournament,
            game_tourn_game_id = tournGameId, game_blue_teamid = blueTeamId,
            game_red_teamid = redTeamId, game_winning_team = winner\<rparr>]\<rparr>)"

definition insert_team :: "state \<Rightarrow> string option \<times> string \<Rightarrow> state" where
  "insert_team cursor vals =
     (case vals of (rgn, team) \<Rightarrow>
        cursor\<lparr>tbl_team := tbl_team cursor @
          [\<lparr>team_id = new_id (map team_id (tbl_team cursor)), team_region = rgn,
            team_display_name = team\<rparr>]\<rparr>)"

definition insert_ban :: "state \<Rightarrow> nat \<times> nat option \<times> nat \<times> nat \<Rightarrow> state" where
  "insert_ban cursor vals =
     (case vals of (gameId, banId, selectionOrder, side) \<Rightarrow>
        cursor\<lparr>tbl_ban := tbl_ban cursor @
          [\<lparr>ban_game_id = gameId, ban_champion_id = banId,
            ban_selection_order = selectionOrder, ban_side_id = side\<rparr>]\<rparr>)"

definition insert_pick :: "state \<Rightarrow> nat \<times> nat option \<times> int \<times> nat \<times> nat \<Rightarrow> state" where
  "insert_pick cursor vals =
     (case vals of (gameId, pickId, position, selectionOrder, side) \<Rightarrow>
        cursor\<lparr>tbl_pick := tbl_pick cursor @
          [\<lparr>pick_game_id = gameId, pick_champion_id = pickId, pick_position_id = position,
            pick_selection_order = selectionOrder, pick_side_id = side\<rparr>]\<rparr>)"

section \<open>insertTeam\<close>

text \<open>
  A call returns \<open>Inr (cursor', status)\<close>, or \<open>Inl (e, cursor')\<close> when it raises
  \<open>e\<close>; \<open>cursor'\<close> is the state the call leaves behind.
\<close>

text \<open>The inner loop \<open>for team in teams\<close>; \<open>rgn\<close> is the local \<open>region\<close>.\<close>

fun insertTeam_teams :: "state \<Rightarrow> string option \<Rightarrow> string list \<Rightarrow> state" where
  "insertTeam_teams cursor rgn [] = cursor"
| "insertTeam_teams cursor rgn (team # teams) =
     (case select_team cursor team of
        None \<Rightarrow> insertTeam_teams (insert_team cursor (rgn, team)) rgn teams
      | Some result \<Rightarrow> insertTeam_teams cursor rgn teams)"

text \<open>The outer loop \<open>for game in gameData\<close>.\<close>

fun insertTeam_games :: "state \<Rightarrow> gameData list \<Rightarrow> error \<times> state + state" where
  "insertTeam_games cursor [] = Inr cursor"
| "insertTeam_games cursor (game # gameData) =
     (case (case split game of
              None \<Rightarrow> Inr None
            | Some sp \<Rightarrow>
                (case dict_get regionsDict (region game) of
                   Inl e \<Rightarrow> Inl e
                 | Inr abbrv \<Rightarrow> Inr (Some abbrv))) of
        Inl e \<Rightarrow> Inl (e, cursor)
      | Inr rgn \<Rightarrow>
          insertTeam_games (insertTeam_teams cursor rgn [blue_team game, red_team game])
            gameData)"

definition insertTeam :: "state \<Rightarrow> gameData list \<Rightarrow> error \<times> state + state \<times> int" where
  "insertTeam cursor gameData =
     (let status = (0::int)
      in case insertTeam_games cursor gameData of
           Inl e \<Rightarrow> Inl e
         | Inr cursor' \<Rightarrow> (let status = (1::int) in Inr (cursor', status)))"

text \<open>
  What one call of \<open>insertTeam\<close> leaves in the \<open>team\<close> table. The loop of
  \<open>insertGame\<close> below terminates because of these facts.
\<close>

lemma find_append: "find P (xs @ ys) = (case find P xs of Some x \<Rightarrow> Some x | None \<Rightarrow> find P ys)"
  by (induction xs) auto

lemma select_team_insert_team:
  "select_team (insert_team cursor (rgn, n)) m =
     (case select_team cursor m of
        Some x \<Rightarrow> Some x
      | None \<Rightarrow> if m = n then Some \<lparr>team_id = new_id (map team_id (tbl_team cursor)), team_region = rgn, team_display_name = n\<rparr> else None)"
  by (auto simp: select_team_def insert_team_def find_append split: option.splits)

lemma select_team_insertTeam_teams_stable:
  "select_team cursor m = Some x \<Longrightarrow> select_team (insertTeam_teams cursor rgn ts) m = Some x"
  by (induction ts arbitrary: cursor) (auto simp: select_team_insert_team split: option.splits)

lemma select_team_insertTeam_teams_present:
  "m \<in> set ts \<Longrightarrow> select_team (insertTeam_teams cursor rgn ts) m \<noteq> None"
proof (induction ts arbitrary: cursor)
  case Nil then show ?case by simp
next
  case (Cons t ts)
  show ?case
  proof (cases "m = t")
    case True
    then show ?thesis
      by (cases "select_team cursor t")
         (auto simp: select_team_insert_team select_team_insertTeam_teams_stable)
  next
    case False
    with Cons show ?thesis by (auto split: option.splits)
  qed
qed

lemma insertTeam_teams_others:
  "tbl_game (insertTeam_teams cursor rgn ts) = tbl_game cursor"
  "tbl_ban (insertTeam_teams cursor rgn ts) = tbl_ban cursor"
  "tbl_pick (insertTeam_teams cursor rgn ts) = tbl_pick cursor"
  "stdout (insertTeam_teams cursor rgn ts) = stdout cursor"
  by (induction ts arbitrary: cursor; auto simp: insert_team_def split: option.splits)+

lemma insertTeam_games_Cons_Inr:
  "insertTeam_games cursor (g # gs) = Inr cursor' \<Longrightarrow>
     \<exists>rgn. insertTeam_games (insertTeam_teams cursor rgn [blue_team g, red_team g]) gs = Inr cursor'"
  by (auto simp del: insertTeam_teams.simps split: option.splits sum.splits)

lemma insertTeam_games_stable:
  "insertTeam_games cursor gs = Inr cursor' \<Longrightarrow> select_team cursor m = Some x \<Longrightarrow> select_team cursor' m = Some x"
proof (induction gs arbitrary: cursor)
  case Nil then show ?case by simp
next
  case (Cons g gs)
  from insertTeam_games_Cons_Inr [OF Cons.prems(1)] obtain rgn where
    step: "insertTeam_games (insertTeam_teams cursor rgn [blue_team g, red_team g]) gs = Inr cursor'" ..
  from Cons.prems(2) have "select_team (insertTeam_teams cursor rgn [blue_team g, red_team g]) m = Some x"
    by (rule select_team_insertTeam_teams_stable)
  with Cons.IH step show ?case by blast
qed

lemma insertTeam_games_present:
  "insertTeam_games cursor gs = Inr cursor' \<Longrightarrow> g \<in> set gs \<Longrightarrow>
     select_team cursor' (blue_team g) \<noteq> None \<and> select_team cursor' (red_team g) \<noteq> None"
proof (induction gs arbitrary: cursor)
  case Nil then show ?case by simp
next
  case (Cons a gs)
  from insertTeam_games_Cons_Inr [OF Cons.prems(1)] obtain rgn where
    step: "insertTeam_games (insertTeam_teams cursor rgn [blue_team a, red_team a]) gs = Inr cursor'" ..
  show ?case
  proof (cases "g = a")
    case True
    have "select_team (insertTeam_teams cursor rgn [blue_team a, red_team a]) (blue_team a) \<noteq> None"
         "select_team (insertTeam_teams cursor rgn [blue_team a, red_team a]) (red_team a) \<noteq> None"
      by (rule select_team_insertTeam_teams_present, simp)+
    with step True show ?thesis
      by (metis insertTeam_games_stable not_Some_eq)
  next
    case False
    with Cons.prems(2) have "g \<in> set gs" by simp
    with Cons.IH step show ?thesis by blast
  qed
qed

lemma insertTeam_present:
  assumes "insertTeam cursor [game] = Inr (cursor', err)"
  shows "select_team_id cursor' (blue_team game) \<noteq> None"
    and "select_team_id cursor' (red_team game) \<noteq> None"
proof -
  from assms have "insertTeam_games cursor [game] = Inr cursor'"
    by (simp add: insertTeam_def split: sum.splits)
  from insertTeam_games_present [OF this, of game]
  show "select_team_id cursor' (blue_team game) \<noteq> None"
    and "select_team_id cursor' (red_team game) \<noteq> None"
    by (simp_all add: select_team_id_def)
qed

section \<open>insertGame\<close>

text \<open>
  The loop \<open>while (blueTeamId is None or redTeamId is None)\<close>. Both variables are
  \<open>None\<close> before the loop, so the body runs at least once; an iteration that finds
  both rows leaves the two ids in the variables and ends the loop, any other iteration
  prints the warning, calls \<open>insertTeam\<close> and is followed by another one. The result
  is the state together with \<open>blueTeamId\<close> and \<open>redTeamId\<close>.
\<close>

function insertGame_teamIds :: "state \<Rightarrow> gameData \<Rightarrow> error \<times> state + state \<times> nat \<times> nat" where
  "insertGame_teamIds cursor game =
     (let blueTeamId = select_team_id cursor (blue_team game);
          redTeamId = select_team_id cursor (red_team game)
      in if blueTeamId = None \<or> redTeamId = None
         then (case insertTeam (print_line cursor TeamNotFoundWarning) [game] of
                 Inl e \<Rightarrow> Inl e
               | Inr (cursor', err) \<Rightarrow> insertGame_teamIds cursor' game)
         else Inr (cursor, the blueTeamId, the redTeamId))"
  by pat_completeness auto
termination
proof (relation "measure (\<lambda>(cursor, game).
    if select_team_id cursor (blue_team game) = None \<or> select_team_id cursor (red_team game) = None
    then 1 else 0)")
  show "wf (measure (\<lambda>(cursor, game).
    if select_team_id cursor (blue_team game) = None \<or> select_team_id cursor (red_team game) = None
    then 1 else 0))"
    by simp
next
  fix cursor game blueTeamId redTeamId x2 cursor' err
  assume "blueTeamId = select_team_id cursor (blue_team game)"
    and "redTeamId = select_team_id cursor (red_team game)"
    and missing: "blueTeamId = None \<or> redTeamId = None"
    and "insertTeam (print_line cursor TeamNotFoundWarning) [game] = Inr x2"
    and "(cursor', err) = x2"
  then have "insertTeam (print_line cursor TeamNotFoundWarning) [game] = Inr (cursor', err)"
    by simp
  from insertTeam_present [OF this] missing
    \<open>blueTeamId = select_team_id cursor (blue_team game)\<close>
    \<open>redTeamId = select_team_id cursor (red_team game)\<close>
  show "((cursor', game), (cursor, game)) \<in> measure (\<lambda>(cursor, game).
    if select_team_id cursor (blue_team game) = None \<or> select_team_id cursor (red_team game) = None
    then 1 else 0)"
    by auto
qed

declare insertGame_teamIds.simps [simp del]

text \<open>The loop \<open>for game in gameData\<close>.\<close>

fun insertGame_games :: "state \<Rightarrow> gameData list \<Rightarrow> error \<times> state + state" where
  "insertGame_games cursor [] = Inr cursor"
| "insertGame_games cursor (game # gameData) =
     (let tournGameId = tourn_game_id game
      in case getTournamentData game of
           Inl e \<Rightarrow> Inl (e, cursor)
         | Inr tournamentData \<Rightarrow>
             (case select_game_id cursor (tournamentData, tournGameId) of
                Some result \<Rightarrow> insertGame_games (print_line cursor (GameExists result)) gameData
              | None \<Rightarrow>
                  (case insertGame_teamIds cursor game of
                     Inl e \<Rightarrow> Inl e
                   | Inr (cursor', blueTeamId, redTeamId) \<Rightarrow>
                       insertGame_games
                         (insert_game cursor'
                            (tournamentData, tournGameId, blueTeamId, redTeamId, winning_team game))
                         gameData)))"

definition insertGame :: "state \<Rightarrow> gameData list \<Rightarrow> error \<times> state + state \<times> int" where
  "insertGame cursor gameData =
     (let status = (0::int)
      in case insertGame_games cursor gameData of
           Inl e \<Rightarrow> Inl e
         | Inr cursor' \<Rightarrow> (let status = (1::int) in Inr (cursor', status)))"

section \<open>getGameId\<close>

text \<open>
  The loop \<open>while gameId is None\<close> runs its body once. When the row is found,
  \<open>gameId\<close> becomes its id and the loop ends. When it is not, the warning is printed
  and the arguments of \<open>insertGame(cursor,[game])\<close> are evaluated: \<open>game\<close> is
  neither a local variable of \<open>getGameId\<close> (its parameter is \<open>gameData\<close>) nor a
  name of the module, so \<open>NameError\<close> is raised before \<open>insertGame\<close> is entered.
\<close>

definition getGameId :: "state \<Rightarrow> gameData \<Rightarrow> error \<times> state + nat" where
  "getGameId cursor gameData =
     (case getTournamentData gameData of
        Inl e \<Rightarrow> Inl (e, cursor)
      | Inr tournament \<Rightarrow>
          (case select_game_id cursor (tournament, tourn_game_id gameData) of
             None \<Rightarrow> Inl (NameError ''game'', print_line cursor GameNotFoundWarning)
           | Some gameId \<Rightarrow> Inr gameId))"

section \<open>insertBan and insertPick\<close>

text \<open>
  Modelled from the spec: the module \<open>championinfo\<close>, from which
  \<open>championIdFromName\<close> and \<open>convertChampionAlias\<close> are imported, is not in the
  source. The spec gives the two lookups as \<open>resolveByName(name) -> id | notFound\<close>
  and \<open>resolveAlias(name) -> canonicalName | notFound\<close>, a mapping service without
  effects; they are parameters of the model, and \<open>None\<close> is \<open>notFound\<close>.
  \<open>championIdFromName\<close> is applied to a name and to whatever
  \<open>convertChampionAlias\<close> returns, so its argument is optional.
\<close>

record resolver =
  championIdFromName :: "string option \<Rightarrow> nat option"
  convertChampionAlias :: "string \<Rightarrow> string option"

text \<open>
  The list \<open>teams\<close> of both functions, and the lookup \<open>d[key]\<close> in the dictionary
  of the two sides for a key of that list.
\<close>

definition teams :: "string list" where
  "teams = [''blue'', ''red'']"

definition sides_get :: "'a sides \<Rightarrow> string \<Rightarrow> 'a list" where
  "sides_get d key = (if key = ''blue'' then blue d else red d)"

text \<open>
  The loop \<open>for ban in bans\<close>, with the running \<open>selectionOrder\<close>; \<open>gameId\<close> and
  \<open>side\<close> are fixed during the loop.
\<close>

fun insertBan_bans :: "resolver \<Rightarrow> nat \<Rightarrow> nat \<Rightarrow> state \<Rightarrow> nat \<Rightarrow> string list \<Rightarrow> state" where
  "insertBan_bans R gameId side cursor selectionOrder [] = cursor"
| "insertBan_bans R gameId side cursor selectionOrder (ban # rest) =
     (let banId =
            (if ban = ''none'' then None
             else (let banId = championIdFromName R (Some ban)
                   in if banId = None
                      then championIdFromName R (convertChampionAlias R ban)
                      else banId));
          selectionOrder = selectionOrder + 1
      in insertBan_bans R gameId side
           (insert_ban cursor (gameId, banId, selectionOrder, side)) selectionOrder rest)"

text \<open>The loop \<open>for k in range(len(teams))\<close>; \<open>ks\<close> are the values of \<open>k\<close> still to come.\<close>

fun insertBan_sides :: "resolver \<Rightarrow> nat \<Rightarrow> gameData \<Rightarrow> state \<Rightarrow> nat list \<Rightarrow> state" where
  "insertBan_sides R gameId game cursor [] = cursor"
| "insertBan_sides R gameId game cursor (k # ks) =
     (let banlist = sides_get (bans game) (teams ! k);
          selectionOrder = 0;
          side = k
      in insertBan_sides R gameId game
           (insertBan_bans R gameId side cursor selectionOrder banlist) ks)"

text \<open>The loop \<open>for game in gameData\<close>.\<close>

fun insertBan_games :: "resolver \<Rightarrow> state \<Rightarrow> gameData list \<Rightarrow> error \<times> state + state" where
  "insertBan_games R cursor [] = Inr cursor"
| "insertBan_games R cursor (game # gameData) =
     (case getTournamentData game of
        Inl e \<Rightarrow> Inl (e, cursor)
      | Inr tournament \<Rightarrow>
          (case getGameId cursor game of
             Inl e \<Rightarrow> Inl e
           | Inr gameId \<Rightarrow>
               (case select_ban cursor gameId of
                  Some result \<Rightarrow> insertBan_games R (print_line cursor (BansExist result)) gameData
                | None \<Rightarrow>
                    insertBan_games R
                      (insertBan_sides R gameId game cursor [0..<length teams]) gameData)))"

definition insertBan :: "resolver \<Rightarrow> state \<Rightarrow> gameData list \<Rightarrow> error \<times> state + state \<times> int" where
  "insertBan R cursor gameData =
     (let status = (0::int)
      in case insertBan_games R cursor gameData of
           Inl e \<Rightarrow> Inl e
         | Inr cursor' \<Rightarrow> (let status = (1::int) in Inr (cursor', status)))"

text \<open>\<open>insertPick\<close> has the same three loops; an entry is a pair of a name and a position.\<close>

fun insertPick_picks ::
  "resolver \<Rightarrow> nat \<Rightarrow> nat \<Rightarrow> state \<Rightarrow> nat \<Rightarrow> (string \<times> int) list \<Rightarrow> state" where
  "insertPick_picks R gameId side cursor selectionOrder [] = cursor"
| "insertPick_picks R gameId side cursor selectionOrder ((pick, position) # rest) =
     (let pickId =
            (if pick = ''none'' then None
             else (let pickId = championIdFromName R (Some pick)
                   in if pickId = None
                      then championIdFromName R (convertChampionAlias R pick)
                      else pickId));
          selectionOrder = selectionOrder + 1
      in insertPick_picks R gameId side
           (insert_pick cursor (gameId, pickId, position, selectionOrder, side)) selectionOrder rest)"

fun insertPick_sides :: "resolver \<Rightarrow> nat \<Rightarrow> gameData \<Rightarrow> state \<Rightarrow> nat list \<Rightarrow> state" where
  "insertPick_sides R gameId game cursor [] = cursor"
| "insertPick_sides R gameId game cursor (k # ks) =
     (let picklist = sides_get (picks game) (teams ! k);
          selectionOrder = 0;
          side = k
      in insertPick_sides R gameId game
           (insertPick_picks R gameId side cursor selectionOrder picklist) ks)"

fun insertPick_games :: "resolver \<Rightarrow> state \<Rightarrow> gameData list \<Rightarrow> error \<times> state + state" where
  "insertPick_games R cursor [] = Inr cursor"
| "insertPick_games R cursor (game # gameData) =
     (case getTournamentData game of
        Inl e \<Rightarrow> Inl (e, cursor)
      | Inr tournament \<Rightarrow>
          (case getGameId cursor game of
             Inl e \<Rightarrow> Inl e
           | Inr gameId \<Rightarrow>
               (case select_pick cursor gameId of
                  Some result \<Rightarrow> insertPick_games R (print_line cursor (PicksExist result)) gameData
                | None \<Rightarrow>
                    insertPick_games R
                      (insertPick_sides R gameId game cursor [0..<length teams]) gameData)))"

definition insertPick :: "resolver \<Rightarrow> state \<Rightarrow> gameData list \<Rightarrow> error \<times> state + state \<times> int" where
  "insertPick R cursor gameData =
     (let status = (0::int)
      in case insertPick_games R cursor gameData of
           Inl e \<Rightarrow> Inl e
         | Inr cursor' \<Rightarrow> (let status = (1::int) in Inr (cursor', status)))"

section \<open>The loop of insertGame when a team name is None\<close>


record team_row_n =
  team_id_n :: nat
  team_region_n :: "string option"
  team_display_name_n :: "string option"

record state_n =
  tbl_team_n :: "team_row_n list"
  stdout_n :: "printed list"

text \<open>
  The comparison \<open>display_name=?\<close>: it is not true when the column or the parameter
  is \<open>NULL\<close>.
\<close>

definition sql_eq :: "'a option \<Rightarrow> 'a option \<Rightarrow> bool" where
  "sql_eq a b = (case a of None \<Rightarrow> False | Some x \<Rightarrow> (case b of None \<Rightarrow> False | Some y \<Rightarrow> x = y))"


definition select_team_n :: "state_n \<Rightarrow> string option \<Rightarrow> team_row_n option" where
  "select_team_n cursor name = find (\<lambda>r. sql_eq (team_display_name_n r) name) (tbl_team_n cursor)"

definition select_team_id_n :: "state_n \<Rightarrow> string option \<Rightarrow> nat option" where
  "select_team_id_n cursor name = map_option team_id_n (select_team_n cursor name)"











section \<open>The written rows in the words of the spec\<close>

text \<open>
  The spec describes what the draft writer stores: the champion of an entry is null for
  the sentinel \<open>none\<close>, else the identifier of the literal name, else the identifier
  of the alias-normalized name; the entries of a side are numbered from 1 in their
  order. These definitions follow that description and are compared with the loops of
  \<open>insertBan\<close> and \<open>insertPick\<close> below.
\<close>

definition spec_champion_id :: "resolver \<Rightarrow> string \<Rightarrow> nat option" where
  "spec_champion_id R name =
     (if name = ''none'' then None
      else (case championIdFromName R (Some name) of
              Some c \<Rightarrow> Some c
            | None \<Rightarrow> championIdFromName R (convertChampionAlias R name)))"

definition spec_ban_rows :: "resolver \<Rightarrow> nat \<Rightarrow> nat \<Rightarrow> string list \<Rightarrow> ban_row list" where
  "spec_ban_rows R gameId side entries =
     map (\<lambda>(n, name). \<lparr>ban_game_id = gameId, ban_champion_id = spec_champion_id R name,
                         ban_selection_order = n, ban_side_id = side\<rparr>)
       (enumerate 1 entries)"

definition spec_pick_rows :: "resolver \<Rightarrow> nat \<Rightarrow> nat \<Rightarrow> (string \<times> int) list \<Rightarrow> pick_row list" where
  "spec_pick_rows R gameId side entries =
     map (\<lambda>(n, name, position). \<lparr>pick_game_id = gameId, pick_champion_id = spec_champion_id R name,
                         pick_position_id = position, pick_selection_order = n, pick_side_id = side\<rparr>)
       (enumerate 1 entries)"

text \<open>The number of \<open>team\<close> rows with a given \<open>display_name\<close>.\<close>

definition team_count :: "state \<Rightarrow> string \<Rightarrow> nat" where
  "team_count cursor name = length (filter (\<lambda>r. team_display_name r = name) (tbl_team cursor))"

text \<open>The local \<open>region\<close> of \<open>insertTeam\<close> for a record it accepts.\<close>

definition team_region_of :: "gameData \<Rightarrow> string option" where
  "team_region_of game =
     (case split game of None \<Rightarrow> None | Some sp \<Rightarrow> map_of regionsDict (region game))"

text \<open>The tables of a state, without its output.\<close>

definition tables :: "state \<Rightarrow> game_row list \<times> team_row list \<times> ban_row list \<times> pick_row list" where
  "tables cursor = (tbl_game cursor, tbl_team cursor, tbl_ban cursor, tbl_pick cursor)"

section \<open>Example records\<close>

definition msi_2019 :: gameData where
  "msi_2019 = \<lparr>region = ''2019_Mid-Season_Invitational'', season = None, split = None,
     tourn_game_id = 1, blue_team = ''G2 Esports'', red_team = ''Team Liquid'', winning_team = 0,
     bans = \<lparr>blue = [''A'', ''B'', ''none''], red = [''C'']\<rparr>,
     picks = \<lparr>blue = [(''D'', 1)], red = [(''none'', 2), (''E'', 3)]\<rparr>\<rparr>"

definition eu_summer_2017 :: gameData where
  "eu_summer_2017 = \<lparr>region = ''Europe'', season = Some ''Season_2017'', split = Some ''Summer'',
     tourn_game_id = 7, blue_team = ''Fnatic'', red_team = ''G2 Esports'', winning_team = 1,
     bans = \<lparr>blue = [''A''], red = [''B'']\<rparr>,
     picks = \<lparr>blue = [(''C'', 1)], red = [(''D'', 1)]\<rparr>\<rparr>"

definition unknown_region :: gameData where
  "unknown_region = eu_summer_2017\<lparr>region := ''2017_Europe'', season := None\<rparr>"

definition unknown_event :: gameData where
  "unknown_event = msi_2019\<lparr>region := ''2018_All-Star_Event''\<rparr>"

text \<open>The record \<open>msi_2019\<close> with one blue ban that no lookup knows.\<close>

definition unknown_ban :: gameData where
  "unknown_ban = msi_2019\<lparr>bans := \<lparr>blue = [''Xyz''], red = []\<rparr>\<rparr>"

definition empty_db :: state where
  "empty_db = \<lparr>tbl_game = [], tbl_team = [], tbl_ban = [], tbl_pick = [], stdout = []\<rparr>"

text \<open>A database that holds the game of \<open>msi_2019\<close> and its two teams, and no draft.\<close>

definition msi_db :: state where
  "msi_db = \<lparr>tbl_game = [\<lparr>game_id = 1, game_tournament = ''2019/MSI'', game_tourn_game_id = 1,
                             game_blue_teamid = 1, game_red_teamid = 2, game_winning_team = 0\<rparr>],
              tbl_team = [\<lparr>team_id = 1, team_region = None, team_display_name = ''G2 Esports''\<rparr>,
                          \<lparr>team_id = 2, team_region = None, team_display_name = ''Team Liquid''\<rparr>],
              tbl_ban = [], tbl_pick = [], stdout = []\<rparr>"

text \<open>
  The same database after the bans, and after the picks, of \<open>msi_2019\<close> were written
  with the resolver below.
\<close>

definition msi_db_bans :: state where
  "msi_db_bans = msi_db\<lparr>tbl_ban :=
     [\<lparr>ban_game_id = 1, ban_champion_id = Some 266, ban_selection_order = 1, ban_side_id = 0\<rparr>,
      \<lparr>ban_game_id = 1, ban_champion_id = Some 103, ban_selection_order = 2, ban_side_id = 0\<rparr>,
      \<lparr>ban_game_id = 1, ban_champion_id = None, ban_selection_order = 3, ban_side_id = 0\<rparr>,
      \<lparr>ban_game_id = 1, ban_champion_id = Some 62, ban_selection_order = 1, ban_side_id = 1\<rparr>]\<rparr>"

definition msi_db_picks :: state where
  "msi_db_picks = msi_db\<lparr>tbl_pick :=
     [\<lparr>pick_game_id = 1, pick_champion_id = None, pick_position_id = 1,
       pick_selection_order = 1, pick_side_id = 0\<rparr>,
      \<lparr>pick_game_id = 1, pick_champion_id = None, pick_position_id = 2,
       pick_selection_order = 1, pick_side_id = 1\<rparr>,
      \<lparr>pick_game_id = 1, pick_champion_id = None, pick_position_id = 3,
       pick_selection_order = 2, pick_side_id = 1\<rparr>]\<rparr>"

text \<open>The teams of \<open>msi_2019\<close> and \<open>eu_summer_2017\<close>, in the order of their insertion.\<close>

definition three_teams :: "team_row list" where
  "three_teams =
     [\<lparr>team_id = 1, team_region = None, team_display_name = ''G2 Esports''\<rparr>,
      \<lparr>team_id = 2, team_region = None, team_display_name = ''Team Liquid''\<rparr>,
      \<lparr>team_id = 3, team_region = Some ''EU'', team_display_name = ''Fnatic''\<rparr>]"

text \<open>A resolver that knows \<open>A\<close>, \<open>B\<close> and \<open>wukong\<close>, and the alias \<open>C\<close> of \<open>wukong\<close>.\<close>

definition example_resolver :: resolver where
  "example_resolver =
     \<lparr>championIdFromName =
        (\<lambda>name. case name of
                   None \<Rightarrow> None
                 | Some n \<Rightarrow> map_of [(''A'', 266), (''B'', 103), (''wukong'', 62)] n),
      convertChampionAlias = map_of [(''C'', ''wukong'')]\<rparr>"






section \<open>Properties of getTournamentData\<close>

lemma re_search_digits_first_run:
  assumes pre: "\<forall>c\<in>set pre. \<not> is_digit c"
    and ne: "year \<noteq> []"
    and year: "\<forall>c\<in>set year. is_digit c"
    and post: "post = [] \<or> \<not> is_digit (hd post)"
  shows "re_search_digits (pre @ year @ post) = Some year"
proof -
  from ne obtain d ds where d: "year = d # ds" by (cases year) auto
  with year have dd: "is_digit d" by simp
  have "dropWhile (\<lambda>c. \<not> is_digit c) (pre @ year @ post) = dropWhile (\<lambda>c. \<not> is_digit c) (year @ post)"
    using pre by (simp add: dropWhile_append2)
  also have "\<dots> = year @ post"
    using d dd by simp
  finally have drop: "dropWhile (\<lambda>c. \<not> is_digit c) (pre @ year @ post) = year @ post" .
  have "takeWhile is_digit post = []"
    using post by (cases post) auto
  with year have "takeWhile is_digit (year @ post) = year"
    by (simp add: takeWhile_append2)
  with drop ne show ?thesis
    by (simp add: re_search_digits_def)
qed

lemma re_match_at_no_digit:
  assumes "\<forall>c\<in>set s. \<not> is_digit c"
  shows "re_match_at s = None"
proof (cases s)
  case Nil then show ?thesis by (simp add: re_match_at_def)
next
  case (Cons c t)
  with assms have c: "\<not> is_digit c" and t: "\<forall>c\<in>set t. \<not> is_digit c" by auto
  from t have "takeWhile is_digit t = []" by (cases t) auto
  moreover from c have "takeWhile is_digit (c # t) = []" by simp
  ultimately show ?thesis using Cons
    by (simp add: re_match_at_def digits_then_us_def)
qed

lemma re_split_from_no_digit:
  "\<forall>c\<in>set s. \<not> is_digit c \<Longrightarrow> re_split_from cur s = [cur @ s]"
proof (induction s arbitrary: cur)
  case Nil then show ?case by simp
next
  case (Cons c s)
  from Cons.prems have "re_match_at (c # s) = None" by (rule re_match_at_no_digit)
  moreover from Cons have "re_split_from (cur @ [c]) s = [(cur @ [c]) @ s]" by simp
  ultimately show ?case by simp
qed

lemma re_split_year_prefix:
  assumes ne: "ds \<noteq> []" and ds: "\<forall>c\<in>set ds. is_digit c"
    and name: "\<forall>c\<in>set name. \<not> is_digit c"
  shows "join [] (re_split (ds @ CHR ''_'' # name)) = name"
proof -
  from ne obtain d ds' where d: "ds = d # ds'" by (cases ds) auto
  with ds have dd: "is_digit d" by simp
  then have nus: "d \<noteq> CHR ''_''" by (auto simp: is_digit_def)
  have us: "\<not> is_digit (CHR ''_'')" by (simp add: is_digit_def)
  have tw: "takeWhile is_digit (ds @ CHR ''_'' # name) = ds"
    using ds us by (simp add: takeWhile_append2)
  have dw: "dropWhile is_digit (ds @ CHR ''_'' # name) = CHR ''_'' # name"
    using ds us by (simp add: dropWhile_append2)
  have "digits_then_us (ds @ CHR ''_'' # name) = Some name"
    using tw dw ne by (simp add: digits_then_us_def)
  then have "re_match_at (d # ds' @ CHR ''_'' # name) = Some name"
    using nus d by (simp add: re_match_at_def)
  then have "re_split (ds @ CHR ''_'' # name) = [[], name]"
    using d re_split_from_no_digit [OF name, of "[]"] by (simp add: re_split_def)
  then show ?thesis by simp
qed


text \<open>
  Claim C3 (tournament key). Let the year be the first run of digits of \<open>season\<close>
  when it is present and of \<open>region\<close> otherwise (the source string is
  \<open>pre @ year @ post\<close> with no digit in \<open>pre\<close>, \<open>year\<close> a non-empty run of digits
  and \<open>post\<close> not starting with a digit). Then \<open>getTournamentData\<close> returns
  \<open>year/split/abbreviation\<close> when \<open>split\<close> is present and \<open>region\<close> is a key of
  \<open>regionsDict\<close>, and \<open>year/abbreviation\<close> when \<open>split\<close> is absent and the region
  without the matches of \<open>_?[0-9]+_?\<close> is a key of \<open>internationalEventsDict\<close>; for
  a region of the form digits, underscore, event name that is the event name. The
  witness is the example of the spec, \<open>2019_Mid-Season_Invitational\<close> giving
  \<open>2019/MSI\<close>.
\<close>

theorem getTournamentData_key:
  assumes "(case season g of None \<Rightarrow> region g | Some s \<Rightarrow> s) = pre @ year @ post"
    and "\<forall>c\<in>set pre. \<not> is_digit c"
    and "year \<noteq> []"
    and "\<forall>c\<in>set year. is_digit c"
    and "post = [] \<or> \<not> is_digit (hd post)"
  shows "(\<forall>sp abbrv. split g = Some sp \<longrightarrow> map_of regionsDict (region g) = Some abbrv \<longrightarrow>
            getTournamentData g = Inr (year @ ''/'' @ sp @ ''/'' @ abbrv)) \<and>
         (\<forall>abbrv. split g = None \<longrightarrow>
            map_of internationalEventsDict (join [] (re_split (region g))) = Some abbrv \<longrightarrow>
            getTournamentData g = Inr (year @ ''/'' @ abbrv)) \<and>
         (\<forall>ds name abbrv. split g = None \<longrightarrow> region g = ds @ ''_'' @ name \<longrightarrow>
            ds \<noteq> [] \<longrightarrow> (\<forall>c\<in>set ds. is_digit c) \<longrightarrow> (\<forall>c\<in>set name. \<not> is_digit c) \<longrightarrow>
            map_of internationalEventsDict name = Some abbrv \<longrightarrow>
            getTournamentData g = Inr (year @ ''/'' @ abbrv))"
proof -
  have "re_search_digits (pre @ year @ post) = Some year"
    using assms(2-5) by (rule re_search_digits_first_run)
  with assms(1) have y: "(case season g of None \<Rightarrow> re_search_digits (region g) | Some s \<Rightarrow> re_search_digits s) = Some year"
    by (cases "season g") auto
  have a: "\<forall>sp abbrv. split g = Some sp \<longrightarrow> map_of regionsDict (region g) = Some abbrv \<longrightarrow>
            getTournamentData g = Inr (year @ ''/'' @ sp @ ''/'' @ abbrv)"
    using y by (simp add: getTournamentData_def dict_get_def)
  have b: "\<forall>abbrv. split g = None \<longrightarrow>
            map_of internationalEventsDict (join [] (re_split (region g))) = Some abbrv \<longrightarrow>
            getTournamentData g = Inr (year @ ''/'' @ abbrv)"
    using y by (simp add: getTournamentData_def dict_get_def)
  have c: "\<forall>ds name abbrv. split g = None \<longrightarrow> region g = ds @ ''_'' @ name \<longrightarrow>
            ds \<noteq> [] \<longrightarrow> (\<forall>c\<in>set ds. is_digit c) \<longrightarrow> (\<forall>c\<in>set name. \<not> is_digit c) \<longrightarrow>
            map_of internationalEventsDict name = Some abbrv \<longrightarrow>
            getTournamentData g = Inr (year @ ''/'' @ abbrv)"
  proof (intro allI impI)
    fix ds name abbrv
    assume s: "split g = None" and r: "region g = ds @ ''_'' @ name" and "ds \<noteq> []"
      and "\<forall>c\<in>set ds. is_digit c" and "\<forall>c\<in>set name. \<not> is_digit c"
      and m: "map_of internationalEventsDict name = Some abbrv"
    then have "join [] (re_split (ds @ CHR ''_'' # name)) = name"
      by (intro re_split_year_prefix)
    with r m have "map_of internationalEventsDict (join [] (re_split (region g))) = Some abbrv"
      by simp
    with b s show "getTournamentData g = Inr (year @ ''/'' @ abbrv)" by blast
  qed
  from a b c show ?thesis by blast
qed

theorem getTournamentData_key_witness:
  "getTournamentData msi_2019 = Inr ''2019/MSI'' \<and>
   getTournamentData eu_summer_2017 = Inr ''2017/Summer/EU''"
proof -
  have d19: "\<forall>c\<in>set ''2019''. is_digit c" and d17: "\<forall>c\<in>set ''2017''. is_digit c"
    and nd: "\<forall>c\<in>set ''Mid-Season_Invitational''. \<not> is_digit c"
    and ns: "\<forall>c\<in>set ''Season_''. \<not> is_digit c"
    by (simp_all add: is_digit_def)
  have "(case season msi_2019 of None \<Rightarrow> region msi_2019 | Some s \<Rightarrow> s) =
          [] @ ''2019'' @ ''_Mid-Season_Invitational''"
    by (simp add: msi_2019_def)
  from getTournamentData_key [OF this _ _ d19]
  have "\<forall>ds name abbrv. split msi_2019 = None \<longrightarrow> region msi_2019 = ds @ ''_'' @ name \<longrightarrow>
          ds \<noteq> [] \<longrightarrow> (\<forall>c\<in>set ds. is_digit c) \<longrightarrow> (\<forall>c\<in>set name. \<not> is_digit c) \<longrightarrow>
          map_of internationalEventsDict name = Some abbrv \<longrightarrow>
          getTournamentData msi_2019 = Inr (''2019'' @ ''/'' @ abbrv)"
    by (simp add: is_digit_def)
  then have "split msi_2019 = None \<longrightarrow>
          region msi_2019 = ''2019'' @ ''_'' @ ''Mid-Season_Invitational'' \<longrightarrow>
          ''2019'' \<noteq> [] \<longrightarrow> (\<forall>c\<in>set ''2019''. is_digit c) \<longrightarrow>
          (\<forall>c\<in>set ''Mid-Season_Invitational''. \<not> is_digit c) \<longrightarrow>
          map_of internationalEventsDict ''Mid-Season_Invitational'' = Some ''MSI'' \<longrightarrow>
          getTournamentData msi_2019 = Inr (''2019'' @ ''/'' @ ''MSI'')"
    by blast
  with d19 nd have msi: "getTournamentData msi_2019 = Inr ''2019/MSI''"
    by (simp add: msi_2019_def internationalEventsDict_def)
  have "(case season eu_summer_2017 of None \<Rightarrow> region eu_summer_2017 | Some s \<Rightarrow> s) =
          ''Season_'' @ ''2017'' @ []"
    by (simp add: eu_summer_2017_def)
  from getTournamentData_key [OF this ns _ d17]
  have "\<forall>sp abbrv. split eu_summer_2017 = Some sp \<longrightarrow>
          map_of regionsDict (region eu_summer_2017) = Some abbrv \<longrightarrow>
          getTournamentData eu_summer_2017 = Inr (''2017'' @ ''/'' @ sp @ ''/'' @ abbrv)"
    by simp
  then have "split eu_summer_2017 = Some ''Summer'' \<longrightarrow>
          map_of regionsDict (region eu_summer_2017) = Some ''EU'' \<longrightarrow>
          getTournamentData eu_summer_2017 = Inr (''2017'' @ ''/'' @ ''Summer'' @ ''/'' @ ''EU'')"
    by blast
  then have "getTournamentData eu_summer_2017 = Inr ''2017/Summer/EU''"
    by (simp add: eu_summer_2017_def regionsDict_def)
  with msi show ?thesis by simp
qed

text \<open>
  Claim C8 (unknown names). When \<open>split\<close> is present and \<open>region\<close> is not a key of
  \<open>regionsDict\<close>, or \<open>split\<close> is absent and the region without its year is not a
  key of \<open>internationalEventsDict\<close>, \<open>getTournamentData\<close> raises: \<open>KeyError\<close> with
  the unknown name, or \<open>AttributeError\<close> when no year was found before the lookup. It
  never returns a key.
\<close>

theorem getTournamentData_unknown_name:
  assumes "case split g of
             Some sp \<Rightarrow> region g \<notin> set (map fst regionsDict)
           | None \<Rightarrow> join [] (re_split (region g)) \<notin> set (map fst internationalEventsDict)"
  shows "\<exists>e. getTournamentData g = Inl e \<and>
           (e = AttributeError \<or>
            e = KeyError (case split g of Some sp \<Rightarrow> region g | None \<Rightarrow> join [] (re_split (region g))))"
proof (cases "split g")
  case None
  with assms have "map_of internationalEventsDict (join [] (re_split (region g))) = None"
    by (simp add: map_of_eq_None_iff)
  with None show ?thesis
    by (simp add: getTournamentData_def dict_get_def split: option.splits)
next
  case (Some sp)
  with assms have "map_of regionsDict (region g) = None"
    by (simp add: map_of_eq_None_iff)
  with Some show ?thesis
    by (simp add: getTournamentData_def dict_get_def split: option.splits)
qed

theorem getTournamentData_unknown_name_witness:
  "(\<exists>e. getTournamentData unknown_region = Inl e \<and>
        (e = AttributeError \<or> e = KeyError ''2017_Europe'')) \<and>
   (\<exists>e. getTournamentData unknown_event = Inl e \<and>
        (e = AttributeError \<or> e = KeyError ''All-Star_Event''))"
proof -
  have r: "join [] (re_split ''2018_All-Star_Event'') = ''All-Star_Event''"
    by code_simp
  have "\<exists>e. getTournamentData unknown_region = Inl e \<and>
        (e = AttributeError \<or> e = KeyError ''2017_Europe'')"
    using getTournamentData_unknown_name [of unknown_region]
    by (simp add: unknown_region_def eu_summer_2017_def regionsDict_def)
  moreover have "\<exists>e. getTournamentData unknown_event = Inl e \<and>
        (e = AttributeError \<or> e = KeyError ''All-Star_Event'')"
    using getTournamentData_unknown_name [of unknown_event] r
    by (simp add: unknown_event_def msi_2019_def internationalEventsDict_def)
  ultimately show ?thesis by simp
qed


section \<open>Properties of insertBan and insertPick\<close>

lemma range_len_teams: "[0..<length teams] = [0, 1]"
  by (simp add: teams_def upt_rec)

lemma insertBan_bans_rows:
  "insertBan_bans R gameId side cursor n entries =
     cursor\<lparr>tbl_ban := tbl_ban cursor @
       map (\<lambda>(n, name). \<lparr>ban_game_id = gameId, ban_champion_id = spec_champion_id R name,
                           ban_selection_order = n, ban_side_id = side\<rparr>)
         (enumerate (Suc n) entries)\<rparr>"
proof (induction entries arbitrary: cursor n)
  case Nil
  show ?case by simp
next
  case (Cons ban rest)
  show ?case
    by (simp add: Cons.IH insert_ban_def spec_champion_id_def Let_def split: option.splits)
qed

lemma insertBan_sides_rows:
  "insertBan_sides R gameId game cursor [0..<length teams] =
     cursor\<lparr>tbl_ban := tbl_ban cursor @ spec_ban_rows R gameId 0 (blue (bans game)) @
                                        spec_ban_rows R gameId 1 (red (bans game))\<rparr>"
  by (simp add: range_len_teams insertBan_bans_rows spec_ban_rows_def sides_get_def teams_def)

lemma insertPick_picks_rows:
  "insertPick_picks R gameId side cursor n entries =
     cursor\<lparr>tbl_pick := tbl_pick cursor @
       map (\<lambda>(n, name, position). \<lparr>pick_game_id = gameId, pick_champion_id = spec_champion_id R name,
                           pick_position_id = position, pick_selection_order = n, pick_side_id = side\<rparr>)
         (enumerate (Suc n) entries)\<rparr>"
proof (induction entries arbitrary: cursor n)
  case Nil
  show ?case by simp
next
  case (Cons pick rest)
  obtain name position where "pick = (name, position)" by (cases pick)
  then show ?case
    by (simp add: Cons.IH insert_pick_def spec_champion_id_def Let_def split: option.splits)
qed

lemma insertPick_sides_rows:
  "insertPick_sides R gameId game cursor [0..<length teams] =
     cursor\<lparr>tbl_pick := tbl_pick cursor @ spec_pick_rows R gameId 0 (blue (picks game)) @
                                        spec_pick_rows R gameId 1 (red (picks game))\<rparr>"
  by (simp add: range_len_teams insertPick_picks_rows spec_pick_rows_def sides_get_def teams_def)


lemma getGameId_found:
  "getTournamentData game = Inr tournament \<Longrightarrow>
   select_game_id cursor (tournament, tourn_game_id game) = Some gameId \<Longrightarrow>
   getGameId cursor game = Inr gameId"
  by (simp add: getGameId_def)

lemma getGameId_missing:
  "getTournamentData game = Inr tournament \<Longrightarrow>
   select_game_id cursor (tournament, tourn_game_id game) = None \<Longrightarrow>
   getGameId cursor game = Inl (NameError ''game'', print_line cursor GameNotFoundWarning)"
  by (simp add: getGameId_def)

lemma insertBan_written:
  assumes "getTournamentData game = Inr tournament"
    and "select_game_id cursor (tournament, tourn_game_id game) = Some gameId"
    and "select_ban cursor gameId = None"
  shows "insertBan R cursor [game] =
           Inr (cursor\<lparr>tbl_ban := tbl_ban cursor @ spec_ban_rows R gameId 0 (blue (bans game)) @
                                      spec_ban_rows R gameId 1 (red (bans game))\<rparr>, 1)"
  using assms
  by (simp add: insertBan_def getGameId_found insertBan_sides_rows del: insertBan_sides.simps)

lemma insertBan_skipped:
  assumes "getTournamentData game = Inr tournament"
    and "select_game_id cursor (tournament, tourn_game_id game) = Some gameId"
    and "select_ban cursor gameId = Some result"
  shows "insertBan R cursor [game] = Inr (print_line cursor (BansExist result), 1)"
  using assms by (simp add: insertBan_def getGameId_found)

lemma insertPick_written:
  assumes "getTournamentData game = Inr tournament"
    and "select_game_id cursor (tournament, tourn_game_id game) = Some gameId"
    and "select_pick cursor gameId = None"
  shows "insertPick R cursor [game] =
           Inr (cursor\<lparr>tbl_pick := tbl_pick cursor @ spec_pick_rows R gameId 0 (blue (picks game)) @
                                      spec_pick_rows R gameId 1 (red (picks game))\<rparr>, 1)"
  using assms
  by (simp add: insertPick_def getGameId_found insertPick_sides_rows del: insertPick_sides.simps)

lemma insertPick_skipped:
  assumes "getTournamentData game = Inr tournament"
    and "select_game_id cursor (tournament, tourn_game_id game) = Some gameId"
    and "select_pick cursor gameId = Some result"
  shows "insertPick R cursor [game] = Inr (print_line cursor (PicksExist result), 1)"
  using assms by (simp add: insertPick_def getGameId_found)

lemma insertBan_Inr:
  assumes "insertBan R cursor [game] = Inr (cursor1, s)"
  obtains tournament gameId where "getTournamentData game = Inr tournament"
    and "select_game_id cursor (tournament, tourn_game_id game) = Some gameId"
  using assms
  by (auto simp: insertBan_def getGameId_def split: sum.splits option.splits simp del: insertBan_sides.simps)

lemma insertPick_Inr:
  assumes "insertPick R cursor [game] = Inr (cursor1, s)"
  obtains tournament gameId where "getTournamentData game = Inr tournament"
    and "select_game_id cursor (tournament, tourn_game_id game) = Some gameId"
  using assms
  by (auto simp: insertPick_def getGameId_def split: sum.splits option.splits simp del: insertPick_sides.simps)

lemma spec_ban_rows_length: "length (spec_ban_rows R gameId side entries) = length entries"
  by (simp add: spec_ban_rows_def)

lemma spec_ban_rows_order:
  "map ban_selection_order (spec_ban_rows R gameId side entries) = [1..<Suc (length entries)]"
  by (simp add: spec_ban_rows_def comp_def case_prod_beta del: upt_Suc)

lemma spec_ban_rows_nth:
  "i < length entries \<Longrightarrow> spec_ban_rows R gameId side entries ! i =
     \<lparr>ban_game_id = gameId, ban_champion_id = spec_champion_id R (entries ! i),
      ban_selection_order = Suc i, ban_side_id = side\<rparr>"
  by (simp add: spec_ban_rows_def nth_enumerate_eq)

lemma spec_ban_rows_game_id:
  "r \<in> set (spec_ban_rows R gameId side entries) \<Longrightarrow> ban_game_id r = gameId"
  by (auto simp: spec_ban_rows_def)

lemma spec_pick_rows_length: "length (spec_pick_rows R gameId side entries) = length entries"
  by (simp add: spec_pick_rows_def)

lemma spec_pick_rows_nth:
  "i < length entries \<Longrightarrow> spec_pick_rows R gameId side entries ! i =
     \<lparr>pick_game_id = gameId, pick_champion_id = spec_champion_id R (fst (entries ! i)),
      pick_position_id = snd (entries ! i), pick_selection_order = Suc i, pick_side_id = side\<rparr>"
  by (simp add: spec_pick_rows_def nth_enumerate_eq case_prod_beta)

lemma spec_pick_rows_game_id:
  "r \<in> set (spec_pick_rows R gameId side entries) \<Longrightarrow> pick_game_id r = gameId"
  by (auto simp: spec_pick_rows_def)


lemma spec_champion_id_none: "spec_champion_id R ''none'' = None"
  by (simp add: spec_champion_id_def)

lemma msi_2019_key: "getTournamentData msi_2019 = Inr ''2019/MSI''"
  by code_simp

lemma msi_db_game: "select_game_id msi_db (''2019/MSI'', tourn_game_id msi_2019) = Some 1"
  by (simp add: select_game_id_def msi_db_def msi_2019_def)

lemma msi_db_no_draft: "select_ban msi_db 1 = None" "select_pick msi_db 1 = None"
  by (simp_all add: select_ban_def select_pick_def msi_db_def)

text \<open>
  Claim C4 (selection order and sentinel). When the game of the record is in the
  \<open>game\<close> table and no \<open>ban\<close> row has its id, \<open>insertBan\<close> appends one row per
  entry, those of blue (side 0) before those of red (side 1), each side in the order
  of its list; the \<open>selection_order\<close> of a side is 1, 2, ... up to the number of its
  entries, the sentinel \<open>none\<close> counted; the row of a sentinel has a null
  \<open>champion_id\<close>. The witness has the blue bans \<open>A\<close>, \<open>B\<close>, \<open>none\<close>: orders 1, 2, 3
  and a null champion in the third row.
\<close>

theorem insertBan_selection_order:
  assumes "getTournamentData game = Inr tournament"
    and "select_game_id cursor (tournament, tourn_game_id game) = Some gameId"
    and "select_ban cursor gameId = None"
  shows "\<exists>blue_rows red_rows.
           insertBan R cursor [game] =
             Inr (cursor\<lparr>tbl_ban := tbl_ban cursor @ blue_rows @ red_rows\<rparr>, 1) \<and>
           length blue_rows = length (blue (bans game)) \<and>
           length red_rows = length (red (bans game)) \<and>
           map ban_selection_order blue_rows = [1..<Suc (length (blue (bans game)))] \<and>
           map ban_selection_order red_rows = [1..<Suc (length (red (bans game)))] \<and>
           (\<forall>r\<in>set blue_rows. ban_side_id r = 0 \<and> ban_game_id r = gameId) \<and>
           (\<forall>r\<in>set red_rows. ban_side_id r = 1 \<and> ban_game_id r = gameId) \<and>
           (\<forall>i<length (blue (bans game)).
              ban_champion_id (blue_rows ! i) = spec_champion_id R (blue (bans game) ! i) \<and>
              (blue (bans game) ! i = ''none'' \<longrightarrow> ban_champion_id (blue_rows ! i) = None)) \<and>
           (\<forall>i<length (red (bans game)).
              ban_champion_id (red_rows ! i) = spec_champion_id R (red (bans game) ! i) \<and>
              (red (bans game) ! i = ''none'' \<longrightarrow> ban_champion_id (red_rows ! i) = None))"
proof (intro exI conjI)
  show "insertBan R cursor [game] =
          Inr (cursor\<lparr>tbl_ban := tbl_ban cursor @ spec_ban_rows R gameId 0 (blue (bans game)) @
                                     spec_ban_rows R gameId 1 (red (bans game))\<rparr>, 1)"
    using assms by (rule insertBan_written)
  show "length (spec_ban_rows R gameId 0 (blue (bans game))) = length (blue (bans game))"
    and "length (spec_ban_rows R gameId 1 (red (bans game))) = length (red (bans game))"
    by (rule spec_ban_rows_length)+
  show "map ban_selection_order (spec_ban_rows R gameId 0 (blue (bans game))) =
          [1..<Suc (length (blue (bans game)))]"
    and "map ban_selection_order (spec_ban_rows R gameId 1 (red (bans game))) =
          [1..<Suc (length (red (bans game)))]"
    by (rule spec_ban_rows_order)+
  show "\<forall>r\<in>set (spec_ban_rows R gameId 0 (blue (bans game))). ban_side_id r = 0 \<and> ban_game_id r = gameId"
    and "\<forall>r\<in>set (spec_ban_rows R gameId 1 (red (bans game))). ban_side_id r = 1 \<and> ban_game_id r = gameId"
    by (auto simp: spec_ban_rows_def)
  show "\<forall>i<length (blue (bans game)).
          ban_champion_id (spec_ban_rows R gameId 0 (blue (bans game)) ! i) =
            spec_champion_id R (blue (bans game) ! i) \<and>
          (blue (bans game) ! i = ''none'' \<longrightarrow>
             ban_champion_id (spec_ban_rows R gameId 0 (blue (bans game)) ! i) = None)"
    by (simp add: spec_ban_rows_nth spec_champion_id_none)
  show "\<forall>i<length (red (bans game)).
          ban_champion_id (spec_ban_rows R gameId 1 (red (bans game)) ! i) =
            spec_champion_id R (red (bans game) ! i) \<and>
          (red (bans game) ! i = ''none'' \<longrightarrow>
             ban_champion_id (spec_ban_rows R gameId 1 (red (bans game)) ! i) = None)"
    by (simp add: spec_ban_rows_nth spec_champion_id_none)
qed

theorem insertBan_selection_order_witness:
  "\<exists>blue_rows red_rows.
     insertBan example_resolver msi_db [msi_2019] =
       Inr (msi_db\<lparr>tbl_ban := tbl_ban msi_db @ blue_rows @ red_rows\<rparr>, 1) \<and>
     map ban_selection_order blue_rows = [1, 2, 3] \<and>
     map ban_side_id blue_rows = [0, 0, 0] \<and>
     ban_champion_id (blue_rows ! 2) = None \<and>
     map ban_selection_order red_rows = [1] \<and>
     map ban_side_id red_rows = [1]"
proof -
  from insertBan_selection_order [OF msi_2019_key msi_db_game msi_db_no_draft(1), of example_resolver]
  obtain blue_rows red_rows where
    run: "insertBan example_resolver msi_db [msi_2019] =
            Inr (msi_db\<lparr>tbl_ban := tbl_ban msi_db @ blue_rows @ red_rows\<rparr>, 1)"
    and lb: "length blue_rows = length (blue (bans msi_2019))"
    and lr: "length red_rows = length (red (bans msi_2019))"
    and ob: "map ban_selection_order blue_rows = [1..<Suc (length (blue (bans msi_2019)))]"
    and or: "map ban_selection_order red_rows = [1..<Suc (length (red (bans msi_2019)))]"
    and sb: "\<forall>r\<in>set blue_rows. ban_side_id r = 0 \<and> ban_game_id r = 1"
    and sr: "\<forall>r\<in>set red_rows. ban_side_id r = 1 \<and> ban_game_id r = 1"
    and cb: "\<forall>i<length (blue (bans msi_2019)).
              ban_champion_id (blue_rows ! i) = spec_champion_id example_resolver (blue (bans msi_2019) ! i) \<and>
              (blue (bans msi_2019) ! i = ''none'' \<longrightarrow> ban_champion_id (blue_rows ! i) = None)"
    by blast
  have bl: "blue (bans msi_2019) = [''A'', ''B'', ''none'']" and rd: "red (bans msi_2019) = [''C'']"
    by (simp_all add: msi_2019_def)
  from ob bl have 1: "map ban_selection_order blue_rows = [1, 2, 3]"
    by (simp add: upt_rec)
  from or rd have 2: "map ban_selection_order red_rows = [1]"
    by (simp add: upt_rec)
  from cb [rule_format, of 2] bl have 3: "ban_champion_id (blue_rows ! 2) = None"
    by (simp add: spec_champion_id_none)
  from lb bl obtain a b c where "blue_rows = [a, b, c]"
    by (cases blue_rows; simp; metis (no_types) length_0_conv length_Suc_conv)
  with sb have 4: "map ban_side_id blue_rows = [0, 0, 0]" by simp
  from lr rd obtain d where "red_rows = [d]"
    by (cases red_rows) auto
  with sr have 5: "map ban_side_id red_rows = [1]" by simp
  from run 1 2 3 4 5 show ?thesis by (intro exI conjI)
qed


lemma select_ban_None_iff:
  "select_ban cursor gameId = None \<longleftrightarrow> \<not> (\<exists>r\<in>set (tbl_ban cursor). ban_game_id r = gameId)"
  by (auto simp: select_ban_def find_None_iff)

lemma select_pick_None_iff:
  "select_pick cursor gameId = None \<longleftrightarrow> \<not> (\<exists>r\<in>set (tbl_pick cursor). pick_game_id r = gameId)"
  by (auto simp: select_pick_def find_None_iff)

text \<open>
  Claim C5 (champion resolution chain), as the code has it. When the game of the record
  is in the \<open>game\<close> table and has no \<open>ban\<close> row (no \<open>pick\<close> row), every entry of
  blue and then of red is written in its position: the \<open>champion_id\<close> is null for the
  sentinel, else the identifier of the literal name when \<open>championIdFromName\<close> finds
  it, else the identifier of the name \<open>convertChampionAlias\<close> gives, which is null
  when that fails too. The call returns status 1 and prints nothing: an unresolved
  name is not reported.
\<close>

theorem champion_resolution_chain:
  assumes "getTournamentData game = Inr tournament"
    and "select_game_id cursor (tournament, tourn_game_id game) = Some gameId"
  shows "(select_ban cursor gameId = None \<longrightarrow>
           (\<exists>cursor' rows.
              insertBan R cursor [game] = Inr (cursor', 1) \<and>
              stdout cursor' = stdout cursor \<and>
              tbl_ban cursor' = tbl_ban cursor @ rows \<and>
              length rows = length (blue (bans game) @ red (bans game)) \<and>
              (\<forall>i<length rows.
                 ban_champion_id (rows ! i) =
                   (let name = (blue (bans game) @ red (bans game)) ! i
                    in if name = ''none'' then None
                       else case championIdFromName R (Some name) of
                              Some c \<Rightarrow> Some c
                            | None \<Rightarrow> championIdFromName R (convertChampionAlias R name)) \<and>
                 ban_selection_order (rows ! i) =
                   (if i < length (blue (bans game)) then Suc i
                    else Suc (i - length (blue (bans game))))))) \<and>
         (select_pick cursor gameId = None \<longrightarrow>
           (\<exists>cursor' rows.
              insertPick R cursor [game] = Inr (cursor', 1) \<and>
              stdout cursor' = stdout cursor \<and>
              tbl_pick cursor' = tbl_pick cursor @ rows \<and>
              length rows = length (blue (picks game) @ red (picks game)) \<and>
              (\<forall>i<length rows.
                 pick_champion_id (rows ! i) =
                   (let name = fst ((blue (picks game) @ red (picks game)) ! i)
                    in if name = ''none'' then None
                       else case championIdFromName R (Some name) of
                              Some c \<Rightarrow> Some c
                            | None \<Rightarrow> championIdFromName R (convertChampionAlias R name)) \<and>
                 pick_position_id (rows ! i) = snd ((blue (picks game) @ red (picks game)) ! i) \<and>
                 pick_selection_order (rows ! i) =
                   (if i < length (blue (picks game)) then Suc i
                    else Suc (i - length (blue (picks game)))))))"
proof (intro conjI impI)
  assume none: "select_ban cursor gameId = None"
  let ?rows = "spec_ban_rows R gameId 0 (blue (bans game)) @ spec_ban_rows R gameId 1 (red (bans game))"
  let ?cursor' = "cursor\<lparr>tbl_ban := tbl_ban cursor @ ?rows\<rparr>"
  have run: "insertBan R cursor [game] = Inr (?cursor', 1)"
    using insertBan_written [OF assms none] by simp
  have len: "length ?rows = length (blue (bans game) @ red (bans game))"
    by (simp add: spec_ban_rows_length)
  have each: "\<forall>i<length ?rows.
                 ban_champion_id (?rows ! i) =
                   (let name = (blue (bans game) @ red (bans game)) ! i
                    in if name = ''none'' then None
                       else case championIdFromName R (Some name) of
                              Some c \<Rightarrow> Some c
                            | None \<Rightarrow> championIdFromName R (convertChampionAlias R name)) \<and>
                 ban_selection_order (?rows ! i) =
                   (if i < length (blue (bans game)) then Suc i
                    else Suc (i - length (blue (bans game))))"
    by (auto simp: spec_ban_rows_length spec_ban_rows_nth nth_append spec_champion_id_def Let_def)
  show "\<exists>cursor' rows.
          insertBan R cursor [game] = Inr (cursor', 1) \<and>
          stdout cursor' = stdout cursor \<and>
          tbl_ban cursor' = tbl_ban cursor @ rows \<and>
          length rows = length (blue (bans game) @ red (bans game)) \<and>
          (\<forall>i<length rows.
             ban_champion_id (rows ! i) =
               (let name = (blue (bans game) @ red (bans game)) ! i
                in if name = ''none'' then None
                   else case championIdFromName R (Some name) of
                          Some c \<Rightarrow> Some c
                        | None \<Rightarrow> championIdFromName R (convertChampionAlias R name)) \<and>
             ban_selection_order (rows ! i) =
               (if i < length (blue (bans game)) then Suc i
                else Suc (i - length (blue (bans game)))))"
  proof (intro exI conjI)
    show "insertBan R cursor [game] = Inr (?cursor', 1)" by (rule run)
    show "stdout ?cursor' = stdout cursor" by simp
    show "tbl_ban ?cursor' = tbl_ban cursor @ ?rows" by simp
    show "length ?rows = length (blue (bans game) @ red (bans game))" by (rule len)
    show "\<forall>i<length ?rows.
                 ban_champion_id (?rows ! i) =
                   (let name = (blue (bans game) @ red (bans game)) ! i
                    in if name = ''none'' then None
                       else case championIdFromName R (Some name) of
                              Some c \<Rightarrow> Some c
                            | None \<Rightarrow> championIdFromName R (convertChampionAlias R name)) \<and>
                 ban_selection_order (?rows ! i) =
                   (if i < length (blue (bans game)) then Suc i
                    else Suc (i - length (blue (bans game))))" by (rule each)
  qed
next
  assume none: "select_pick cursor gameId = None"
  let ?rows = "spec_pick_rows R gameId 0 (blue (picks game)) @ spec_pick_rows R gameId 1 (red (picks game))"
  let ?cursor' = "cursor\<lparr>tbl_pick := tbl_pick cursor @ ?rows\<rparr>"
  have run: "insertPick R cursor [game] = Inr (?cursor', 1)"
    using insertPick_written [OF assms none] by simp
  have each: "\<forall>i<length ?rows.
                 pick_champion_id (?rows ! i) =
                   (let name = fst ((blue (picks game) @ red (picks game)) ! i)
                    in if name = ''none'' then None
                       else case championIdFromName R (Some name) of
                              Some c \<Rightarrow> Some c
                            | None \<Rightarrow> championIdFromName R (convertChampionAlias R name)) \<and>
                 pick_position_id (?rows ! i) = snd ((blue (picks game) @ red (picks game)) ! i) \<and>
                 pick_selection_order (?rows ! i) =
                   (if i < length (blue (picks game)) then Suc i
                    else Suc (i - length (blue (picks game))))"
    by (auto simp: spec_pick_rows_length spec_pick_rows_nth nth_append spec_champion_id_def Let_def)
  show "\<exists>cursor' rows.
              insertPick R cursor [game] = Inr (cursor', 1) \<and>
              stdout cursor' = stdout cursor \<and>
              tbl_pick cursor' = tbl_pick cursor @ rows \<and>
              length rows = length (blue (picks game) @ red (picks game)) \<and>
              (\<forall>i<length rows.
                 pick_champion_id (rows ! i) =
                   (let name = fst ((blue (picks game) @ red (picks game)) ! i)
                    in if name = ''none'' then None
                       else case championIdFromName R (Some name) of
                              Some c \<Rightarrow> Some c
                            | None \<Rightarrow> championIdFromName R (convertChampionAlias R name)) \<and>
                 pick_position_id (rows ! i) = snd ((blue (picks game) @ red (picks game)) ! i) \<and>
                 pick_selection_order (rows ! i) =
                   (if i < length (blue (picks game)) then Suc i
                    else Suc (i - length (blue (picks game)))))"
  proof (intro exI conjI)
    show "insertPick R cursor [game] = Inr (?cursor', 1)" by (rule run)
    show "stdout ?cursor' = stdout cursor" by simp
    show "tbl_pick ?cursor' = tbl_pick cursor @ ?rows" by simp
    show "length ?rows = length (blue (picks game) @ red (picks game))"
      by (simp add: spec_pick_rows_length)
    show "\<forall>i<length ?rows.
                 pick_champion_id (?rows ! i) =
                   (let name = fst ((blue (picks game) @ red (picks game)) ! i)
                    in if name = ''none'' then None
                       else case championIdFromName R (Some name) of
                              Some c \<Rightarrow> Some c
                            | None \<Rightarrow> championIdFromName R (convertChampionAlias R name)) \<and>
                 pick_position_id (?rows ! i) = snd ((blue (picks game) @ red (picks game)) ! i) \<and>
                 pick_selection_order (?rows ! i) =
                   (if i < length (blue (picks game)) then Suc i
                    else Suc (i - length (blue (picks game))))" by (rule each)
  qed
qed


theorem champion_resolution_chain_witness:
  "\<exists>cursor' rows.
     insertBan example_resolver msi_db [msi_2019] = Inr (cursor', 1) \<and>
     stdout cursor' = stdout msi_db \<and>
     tbl_ban cursor' = tbl_ban msi_db @ rows \<and>
     map ban_champion_id rows = [Some 266, Some 103, None, Some 62]"
proof -
  from champion_resolution_chain [OF msi_2019_key msi_db_game, of example_resolver] msi_db_no_draft(1)
  obtain cursor' rows where run: "insertBan example_resolver msi_db [msi_2019] = Inr (cursor', 1)"
    and out: "stdout cursor' = stdout msi_db"
    and tbl: "tbl_ban cursor' = tbl_ban msi_db @ rows"
    and len: "length rows = length (blue (bans msi_2019) @ red (bans msi_2019))"
    and each: "\<forall>i<length rows.
                 ban_champion_id (rows ! i) =
                   (let name = (blue (bans msi_2019) @ red (bans msi_2019)) ! i
                    in if name = ''none'' then None
                       else case championIdFromName example_resolver (Some name) of
                              Some c \<Rightarrow> Some c
                            | None \<Rightarrow> championIdFromName example_resolver
                                       (convertChampionAlias example_resolver name)) \<and>
                 ban_selection_order (rows ! i) =
                   (if i < length (blue (bans msi_2019)) then Suc i
                    else Suc (i - length (blue (bans msi_2019))))"
    by blast
  have entries: "blue (bans msi_2019) @ red (bans msi_2019) = [''A'', ''B'', ''none'', ''C'']"
    by (simp add: msi_2019_def)
  with len have l4: "length rows = 4" by simp
  then obtain a b c d where rows: "rows = [a, b, c, d]"
    by (auto simp: numeral_eq_Suc length_Suc_conv)
  from each [rule_format, of 0] each [rule_format, of 1] each [rule_format, of 2]
    each [rule_format, of 3] l4 entries
  have "ban_champion_id (rows ! 0) = Some 266" "ban_champion_id (rows ! 1) = Some 103"
    "ban_champion_id (rows ! 2) = None" "ban_champion_id (rows ! 3) = Some 62"
    by (simp_all add: example_resolver_def)
  with rows have "map ban_champion_id rows = [Some 266, Some 103, None, Some 62]"
    by simp
  with run out tbl show ?thesis by (intro exI conjI)
qed

text \<open>
  Claim C5 as stated says that a failure of both lookups is surfaced as a warning. Here the ban
  \<open>Xyz\<close> is unknown to both lookups: the row is written with a null champion, and the
  output is as empty after the call as before it.
\<close>

theorem unresolved_champion_no_warning:
  "insertBan example_resolver msi_db [unknown_ban] =
     Inr (msi_db\<lparr>tbl_ban := [\<lparr>ban_game_id = 1, ban_champion_id = None,
                                ban_selection_order = 1, ban_side_id = 0\<rparr>]\<rparr>, 1) \<and>
   stdout (msi_db\<lparr>tbl_ban := [\<lparr>ban_game_id = 1, ban_champion_id = None,
                                ban_selection_order = 1, ban_side_id = 0\<rparr>]\<rparr>) = [] \<and>
   stdout msi_db = [] \<and>
   championIdFromName example_resolver (Some ''Xyz'') = None \<and>
   championIdFromName example_resolver (convertChampionAlias example_resolver ''Xyz'') = None"
proof -
  have k: "getTournamentData unknown_ban = Inr ''2019/MSI''"
    by code_simp
  have g: "select_game_id msi_db (''2019/MSI'', tourn_game_id unknown_ban) = Some 1"
    by (simp add: select_game_id_def msi_db_def msi_2019_def unknown_ban_def)
  have "spec_champion_id example_resolver ''Xyz'' = None"
    by (simp add: spec_champion_id_def example_resolver_def)
  then have "insertBan example_resolver msi_db [unknown_ban] =
     Inr (msi_db\<lparr>tbl_ban := [\<lparr>ban_game_id = 1, ban_champion_id = None,
                                ban_selection_order = 1, ban_side_id = 0\<rparr>]\<rparr>, 1)"
    using insertBan_written [OF k g msi_db_no_draft(1), of example_resolver]
    by (simp add: unknown_ban_def spec_ban_rows_def enumerate_eq_zip msi_db_def)
  then show ?thesis
    by (simp add: msi_db_def example_resolver_def)
qed


lemma tables_print_line [simp]: "tables (print_line cursor line) = tables cursor"
  by (simp add: tables_def print_line_def)

lemma insertBan_twice:
  assumes first: "insertBan R cursor [game] = Inr (cursor1, status1)"
  shows "\<exists>gameId cursor2.
           getGameId cursor game = Inr gameId \<and>
           tbl_ban cursor1 =
             (if \<exists>r\<in>set (tbl_ban cursor). ban_game_id r = gameId then tbl_ban cursor
              else tbl_ban cursor @ spec_ban_rows R gameId 0 (blue (bans game)) @
                     spec_ban_rows R gameId 1 (red (bans game))) \<and>
           insertBan R cursor1 [game] = Inr (cursor2, 1) \<and>
           tables cursor2 = tables cursor1"
proof -
  from first obtain tournament gameId where t: "getTournamentData game = Inr tournament"
    and g: "select_game_id cursor (tournament, tourn_game_id game) = Some gameId"
    by (rule insertBan_Inr)
  let ?rows = "spec_ban_rows R gameId 0 (blue (bans game)) @ spec_ban_rows R gameId 1 (red (bans game))"
  have gid: "getGameId cursor game = Inr gameId"
    using t g by (rule getGameId_found)
  show ?thesis
  proof (cases "select_ban cursor gameId")
    case None
    from insertBan_written [OF t g None, of R] first
    have c1: "cursor1 = cursor\<lparr>tbl_ban := tbl_ban cursor @ ?rows\<rparr>" by simp
    then have g1: "select_game_id cursor1 (tournament, tourn_game_id game) = Some gameId"
      using g by (simp add: select_game_id_def)
    from None have no: "\<not> (\<exists>r\<in>set (tbl_ban cursor). ban_game_id r = gameId)"
      by (simp add: select_ban_None_iff)
    with c1 have tbl: "tbl_ban cursor1 =
             (if \<exists>r\<in>set (tbl_ban cursor). ban_game_id r = gameId then tbl_ban cursor
              else tbl_ban cursor @ ?rows)"
      by simp
    have "\<exists>cursor2. insertBan R cursor1 [game] = Inr (cursor2, 1) \<and> tables cursor2 = tables cursor1"
    proof (cases "select_ban cursor1 gameId")
      case None
      then have "\<forall>r\<in>set ?rows. ban_game_id r \<noteq> gameId"
        using c1 by (simp add: select_ban_None_iff)
      moreover have "\<forall>r\<in>set ?rows. ban_game_id r = gameId"
        by (auto dest: spec_ban_rows_game_id)
      ultimately have "?rows = []"
        by (cases ?rows) (simp, metis list.set_intros(1))
      then have "cursor1\<lparr>tbl_ban := tbl_ban cursor1 @ ?rows\<rparr> = cursor1" by simp
      with insertBan_written [OF t g1 None, of R]
      have "insertBan R cursor1 [game] = Inr (cursor1, 1)" by simp
      then show ?thesis by blast
    next
      case (Some result)
      from insertBan_skipped [OF t g1 Some, of R]
      have "insertBan R cursor1 [game] = Inr (print_line cursor1 (BansExist result), 1)" .
      moreover have "tables (print_line cursor1 (BansExist result)) = tables cursor1" by simp
      ultimately show ?thesis by blast
    qed
    with gid tbl show ?thesis by blast
  next
    case (Some result)
    from insertBan_skipped [OF t g Some, of R] first
    have c1: "cursor1 = print_line cursor (BansExist result)" by simp
    then have g1: "select_game_id cursor1 (tournament, tourn_game_id game) = Some gameId"
      and b1: "select_ban cursor1 gameId = Some result"
      using g Some by (simp_all add: select_game_id_def select_ban_def print_line_def)
    from Some have ex: "\<exists>r\<in>set (tbl_ban cursor). ban_game_id r = gameId"
      using select_ban_None_iff [of cursor gameId] by simp
    with c1 have tbl: "tbl_ban cursor1 =
             (if \<exists>r\<in>set (tbl_ban cursor). ban_game_id r = gameId then tbl_ban cursor
              else tbl_ban cursor @ ?rows)"
      by (simp add: print_line_def)
    from insertBan_skipped [OF t g1 b1, of R]
    have "insertBan R cursor1 [game] = Inr (print_line cursor1 (BansExist result), 1)" .
    moreover have "tables (print_line cursor1 (BansExist result)) = tables cursor1" by simp
    ultimately have "\<exists>cursor2. insertBan R cursor1 [game] = Inr (cursor2, 1) \<and> tables cursor2 = tables cursor1"
      by blast
    with gid tbl show ?thesis by blast
  qed
qed

lemma insertPick_twice:
  assumes first: "insertPick R cursor [game] = Inr (cursor1, status1)"
  shows "\<exists>gameId cursor2.
           getGameId cursor game = Inr gameId \<and>
           tbl_pick cursor1 =
             (if \<exists>r\<in>set (tbl_pick cursor). pick_game_id r = gameId then tbl_pick cursor
              else tbl_pick cursor @ spec_pick_rows R gameId 0 (blue (picks game)) @
                     spec_pick_rows R gameId 1 (red (picks game))) \<and>
           insertPick R cursor1 [game] = Inr (cursor2, 1) \<and>
           tables cursor2 = tables cursor1"
proof -
  from first obtain tournament gameId where t: "getTournamentData game = Inr tournament"
    and g: "select_game_id cursor (tournament, tourn_game_id game) = Some gameId"
    by (rule insertPick_Inr)
  let ?rows = "spec_pick_rows R gameId 0 (blue (picks game)) @ spec_pick_rows R gameId 1 (red (picks game))"
  have gid: "getGameId cursor game = Inr gameId"
    using t g by (rule getGameId_found)
  show ?thesis
  proof (cases "select_pick cursor gameId")
    case None
    from insertPick_written [OF t g None, of R] first
    have c1: "cursor1 = cursor\<lparr>tbl_pick := tbl_pick cursor @ ?rows\<rparr>" by simp
    then have g1: "select_game_id cursor1 (tournament, tourn_game_id game) = Some gameId"
      using g by (simp add: select_game_id_def)
    from None have no: "\<not> (\<exists>r\<in>set (tbl_pick cursor). pick_game_id r = gameId)"
      by (simp add: select_pick_None_iff)
    with c1 have tbl: "tbl_pick cursor1 =
             (if \<exists>r\<in>set (tbl_pick cursor). pick_game_id r = gameId then tbl_pick cursor
              else tbl_pick cursor @ ?rows)"
      by simp
    have "\<exists>cursor2. insertPick R cursor1 [game] = Inr (cursor2, 1) \<and> tables cursor2 = tables cursor1"
    proof (cases "select_pick cursor1 gameId")
      case None
      then have "\<forall>r\<in>set ?rows. pick_game_id r \<noteq> gameId"
        using c1 by (simp add: select_pick_None_iff)
      moreover have "\<forall>r\<in>set ?rows. pick_game_id r = gameId"
        by (auto dest: spec_pick_rows_game_id)
      ultimately have "?rows = []"
        by (cases ?rows) (simp, metis list.set_intros(1))
      then have "cursor1\<lparr>tbl_pick := tbl_pick cursor1 @ ?rows\<rparr> = cursor1" by simp
      with insertPick_written [OF t g1 None, of R]
      have "insertPick R cursor1 [game] = Inr (cursor1, 1)" by simp
      then show ?thesis by blast
    next
      case (Some result)
      from insertPick_skipped [OF t g1 Some, of R]
      have "insertPick R cursor1 [game] = Inr (print_line cursor1 (PicksExist result), 1)" .
      moreover have "tables (print_line cursor1 (PicksExist result)) = tables cursor1" by simp
      ultimately show ?thesis by blast
    qed
    with gid tbl show ?thesis by blast
  next
    case (Some result)
    from insertPick_skipped [OF t g Some, of R] first
    have c1: "cursor1 = print_line cursor (PicksExist result)" by simp
    then have g1: "select_game_id cursor1 (tournament, tourn_game_id game) = Some gameId"
      and b1: "select_pick cursor1 gameId = Some result"
      using g Some by (simp_all add: select_game_id_def select_pick_def print_line_def)
    from Some have ex: "\<exists>r\<in>set (tbl_pick cursor). pick_game_id r = gameId"
      using select_pick_None_iff [of cursor gameId] by simp
    with c1 have tbl: "tbl_pick cursor1 =
             (if \<exists>r\<in>set (tbl_pick cursor). pick_game_id r = gameId then tbl_pick cursor
              else tbl_pick cursor @ ?rows)"
      by (simp add: print_line_def)
    from insertPick_skipped [OF t g1 b1, of R]
    have "insertPick R cursor1 [game] = Inr (print_line cursor1 (PicksExist result), 1)" .
    moreover have "tables (print_line cursor1 (PicksExist result)) = tables cursor1" by simp
    ultimately have "\<exists>cursor2. insertPick R cursor1 [game] = Inr (cursor2, 1) \<and> tables cursor2 = tables cursor1"
      by blast
    with gid tbl show ?thesis by blast
  qed
qed


text \<open>
  Claim C2 (idempotent draft write). Whenever \<open>insertBan\<close> returns for a record, it
  has resolved the id of the game, and the \<open>ban\<close> table then is the old one if some
  row had that id, and the old one followed by the rows of the record otherwise: the
  rows are written once, or the whole write is skipped. A second call with the same
  record returns status 1 and leaves all four tables as they are. The same holds for
  \<open>insertPick\<close> and the \<open>pick\<close> table.
\<close>

theorem draft_write_idempotent:
  "(insertBan R cursor [game] = Inr (cursor1, status1) \<longrightarrow>
      (\<exists>gameId cursor2.
         getGameId cursor game = Inr gameId \<and>
         tbl_ban cursor1 =
           (if \<exists>r\<in>set (tbl_ban cursor). ban_game_id r = gameId then tbl_ban cursor
            else tbl_ban cursor @ spec_ban_rows R gameId 0 (blue (bans game)) @
                   spec_ban_rows R gameId 1 (red (bans game))) \<and>
         insertBan R cursor1 [game] = Inr (cursor2, 1) \<and>
         tables cursor2 = tables cursor1)) \<and>
   (insertPick R cursor [game] = Inr (cursor1, status1) \<longrightarrow>
      (\<exists>gameId cursor2.
         getGameId cursor game = Inr gameId \<and>
         tbl_pick cursor1 =
           (if \<exists>r\<in>set (tbl_pick cursor). pick_game_id r = gameId then tbl_pick cursor
            else tbl_pick cursor @ spec_pick_rows R gameId 0 (blue (picks game)) @
                   spec_pick_rows R gameId 1 (red (picks game))) \<and>
         insertPick R cursor1 [game] = Inr (cursor2, 1) \<and>
         tables cursor2 = tables cursor1))"
  using insertBan_twice [of R cursor game cursor1 status1]
    insertPick_twice [of R cursor game cursor1 status1]
  by (intro conjI impI)

lemma insertBan_msi: "insertBan example_resolver msi_db [msi_2019] = Inr (msi_db_bans, 1)"
  using insertBan_written [OF msi_2019_key msi_db_game msi_db_no_draft(1), of example_resolver]
  by (simp add: msi_db_bans_def msi_2019_def spec_ban_rows_def spec_champion_id_def
      example_resolver_def enumerate_eq_zip upt_rec msi_db_def)

lemma insertPick_msi: "insertPick example_resolver msi_db [msi_2019] = Inr (msi_db_picks, 1)"
  using insertPick_written [OF msi_2019_key msi_db_game msi_db_no_draft(2), of example_resolver]
  by (simp add: msi_db_picks_def msi_2019_def spec_pick_rows_def spec_champion_id_def
      example_resolver_def enumerate_eq_zip upt_rec msi_db_def)

theorem draft_write_idempotent_witness:
  "(\<exists>cursor2. insertBan example_resolver msi_db [msi_2019] = Inr (msi_db_bans, 1) \<and>
      length (tbl_ban msi_db_bans) = 4 \<and>
      insertBan example_resolver msi_db_bans [msi_2019] = Inr (cursor2, 1) \<and>
      tables cursor2 = tables msi_db_bans) \<and>
   (\<exists>cursor2. insertPick example_resolver msi_db [msi_2019] = Inr (msi_db_picks, 1) \<and>
      length (tbl_pick msi_db_picks) = 3 \<and>
      insertPick example_resolver msi_db_picks [msi_2019] = Inr (cursor2, 1) \<and>
      tables cursor2 = tables msi_db_picks)"
proof -
  from draft_write_idempotent [of example_resolver msi_db msi_2019 msi_db_bans 1] insertBan_msi
  obtain cursor2 where "insertBan example_resolver msi_db_bans [msi_2019] = Inr (cursor2, 1)"
    and "tables cursor2 = tables msi_db_bans"
    by blast
  moreover
  from draft_write_idempotent [of example_resolver msi_db msi_2019 msi_db_picks 1] insertPick_msi
  obtain cursor3 where "insertPick example_resolver msi_db_picks [msi_2019] = Inr (cursor3, 1)"
    and "tables cursor3 = tables msi_db_picks"
    by blast
  moreover have "length (tbl_ban msi_db_bans) = 4" "length (tbl_pick msi_db_picks) = 3"
    by (simp_all add: msi_db_bans_def msi_db_picks_def)
  ultimately show ?thesis
    using insertBan_msi insertPick_msi by blast
qed


section \<open>Properties of insertTeam, insertGame and getGameId\<close>

lemma getTournamentData_region_known:
  assumes "getTournamentData game = Inr tournament" and "split game = Some sp"
  shows "\<exists>abbrv. dict_get regionsDict (region game) = Inr abbrv"
  using assms
  by (cases "dict_get regionsDict (region game)")
     (auto simp: getTournamentData_def split: option.splits)

lemma insertTeam_returns:
  assumes "getTournamentData game = Inr tournament"
  shows "insertTeam cursor [game] =
           Inr (insertTeam_teams cursor
                  (team_region_of game)
                  [blue_team game, red_team game], 1)"
proof (cases "split game")
  case None
  then show ?thesis
    by (simp add: insertTeam_def team_region_of_def del: insertTeam_teams.simps)
next
  case (Some sp)
  with assms obtain abbrv where "dict_get regionsDict (region game) = Inr abbrv"
    using getTournamentData_region_known by blast
  with Some show ?thesis
    by (auto simp: insertTeam_def dict_get_def team_region_of_def split: option.splits
        simp del: insertTeam_teams.simps)
qed

text \<open>
  The loop of \<open>insertGame\<close> unrolled: an iteration that finds both teams ends it, and
  an iteration that calls \<open>insertTeam\<close> is followed by one that finds both.
\<close>

lemma insertGame_teamIds_found:
  assumes "select_team_id cursor (blue_team game) = Some b"
    and "select_team_id cursor (red_team game) = Some r"
  shows "insertGame_teamIds cursor game = Inr (cursor, b, r)"
  using assms by (simp add: insertGame_teamIds.simps)

lemma insertGame_teamIds_missing:
  assumes "select_team_id cursor (blue_team game) = None \<or> select_team_id cursor (red_team game) = None"
  shows "insertGame_teamIds cursor game =
           (case insertTeam (print_line cursor TeamNotFoundWarning) [game] of
              Inl e \<Rightarrow> Inl e
            | Inr (cursor', err) \<Rightarrow>
                Inr (cursor', the (select_team_id cursor' (blue_team game)),
                     the (select_team_id cursor' (red_team game))))"
proof (cases "insertTeam (print_line cursor TeamNotFoundWarning) [game]")
  case (Inl e)
  with assms show ?thesis
    by (subst insertGame_teamIds.simps) auto
next
  case (Inr p)
  obtain cursor' err where p: "p = (cursor', err)" by (cases p)
  from insertTeam_present [OF Inr [unfolded p]]
  obtain b r where "select_team_id cursor' (blue_team game) = Some b"
    and "select_team_id cursor' (red_team game) = Some r"
    by auto
  then have "insertGame_teamIds cursor' game =
      Inr (cursor', the (select_team_id cursor' (blue_team game)),
                     the (select_team_id cursor' (red_team game)))"
    by (simp add: insertGame_teamIds_found)
  with assms Inr p show ?thesis
    by (subst insertGame_teamIds.simps) auto
qed


lemma insertGame_teamIds_returns:
  assumes "getTournamentData game = Inr tournament"
  shows "\<exists>cursor' b r.
           insertGame_teamIds cursor game = Inr (cursor', b, r) \<and>
           select_team_id cursor' (blue_team game) = Some b \<and>
           select_team_id cursor' (red_team game) = Some r \<and>
           (cursor' = cursor \<or>
            (select_team_id cursor (blue_team game) = None \<or>
             select_team_id cursor (red_team game) = None) \<and>
            cursor' = insertTeam_teams (print_line cursor TeamNotFoundWarning)
                        (team_region_of game) [blue_team game, red_team game])"
proof (cases "select_team_id cursor (blue_team game) = None \<or> select_team_id cursor (red_team game) = None")
  case True
  let ?c = "insertTeam_teams (print_line cursor TeamNotFoundWarning)
              (team_region_of game) [blue_team game, red_team game]"
  have it: "insertTeam (print_line cursor TeamNotFoundWarning) [game] = Inr (?c, 1)"
    using assms by (rule insertTeam_returns)
  from insertTeam_present [OF it] obtain b r where
    br: "select_team_id ?c (blue_team game) = Some b" "select_team_id ?c (red_team game) = Some r"
    by auto
  have "insertGame_teamIds cursor game = Inr (?c, b, r)"
    using insertGame_teamIds_missing [OF True] it br by simp
  with br True show ?thesis by blast
next
  case False
  then obtain b r where br: "select_team_id cursor (blue_team game) = Some b"
    "select_team_id cursor (red_team game) = Some r"
    by auto
  then have "insertGame_teamIds cursor game = Inr (cursor, b, r)"
    by (rule insertGame_teamIds_found)
  with br show ?thesis by blast
qed

lemma select_team_None_iff: "select_team cursor name = None \<longleftrightarrow> team_count cursor name = 0"
  by (auto simp: select_team_def team_count_def find_None_iff filter_empty_conv)

lemma team_count_insert_team:
  "team_count (insert_team cursor (rgn, t)) n = team_count cursor n + (if n = t then 1 else 0)"
  by (simp add: team_count_def insert_team_def)

lemma team_count_insertTeam_teams:
  "team_count (insertTeam_teams cursor rgn ts) n =
     (if n \<in> set ts \<and> team_count cursor n = 0 then 1 else team_count cursor n)"
proof (induction ts arbitrary: cursor)
  case Nil show ?case by simp
next
  case (Cons t ts)
  show ?case
  proof (cases "select_team cursor t")
    case None
    then have "team_count cursor t = 0" by (simp add: select_team_None_iff)
    with None show ?thesis
      by (simp add: Cons.IH team_count_insert_team)
  next
    case (Some row)
    then have "team_count cursor t \<noteq> 0"
      using select_team_None_iff [of cursor t] by simp
    with Some show ?thesis
      by (auto simp: Cons.IH)
  qed
qed

lemma tbl_team_insertTeam_teams:
  "\<exists>new. tbl_team (insertTeam_teams cursor rgn ts) = tbl_team cursor @ new"
proof (induction ts arbitrary: cursor)
  case Nil show ?case by simp
next
  case (Cons t ts)
  show ?case
  proof (cases "select_team cursor t")
    case None
    from Cons.IH [of "insert_team cursor (rgn, t)"] obtain new where
      "tbl_team (insertTeam_teams (insert_team cursor (rgn, t)) rgn ts) =
         tbl_team (insert_team cursor (rgn, t)) @ new" ..
    with None show ?thesis by (simp add: insert_team_def)
  next
    case (Some row)
    with Cons.IH [of cursor] show ?thesis by simp
  qed
qed


lemma select_game_id_insert_game_new:
  assumes "select_game_id cursor (t, i) = None"
  shows "select_game_id (insert_game cursor (t, i, b, r, w)) (t, i) =
           Some (new_id (map game_id (tbl_game cursor)))"
  using assms by (simp add: select_game_id_def insert_game_def find_append)

lemma insertGame_teamIds_tbl_game:
  assumes "getTournamentData game = Inr tournament"
    and "insertGame_teamIds cursor game = Inr (cursor', b, r)"
  shows "tbl_game cursor' = tbl_game cursor"
  using insertGame_teamIds_returns [OF assms(1), of cursor] assms(2)
  by (auto simp: insertTeam_teams_others print_line_def simp del: insertTeam_teams.simps)

lemma insertGame_found:
  assumes "getTournamentData game = Inr tournament"
    and "select_game_id cursor (tournament, tourn_game_id game) = Some gameId"
  shows "insertGame cursor [game] = Inr (print_line cursor (GameExists gameId), 1)"
  using assms by (simp add: insertGame_def)

lemma insertGame_fresh:
  assumes t: "getTournamentData game = Inr tournament"
    and none: "select_game_id cursor (tournament, tourn_game_id game) = None"
  shows "\<exists>cursor' b r.
           insertGame_teamIds cursor game = Inr (cursor', b, r) \<and>
           insertGame cursor [game] =
             Inr (insert_game cursor' (tournament, tourn_game_id game, b, r, winning_team game), 1)"
proof -
  from insertGame_teamIds_returns [OF t, of cursor] obtain cursor' b r where
    "insertGame_teamIds cursor game = Inr (cursor', b, r)" by blast
  with t none show ?thesis by (simp add: insertGame_def)
qed

text \<open>
  Claim C1 (idempotent game upsert). For every record whose tournament key can be
  formed, \<open>insertGame\<close> returns status 1 and the game is then found under its
  (tournament, tourn_game_id); a second call with the same record finds that row,
  prints that the game exists, returns status 1 and changes no table, so the identifier
  found is the same. Over both calls the \<open>game\<close> table grows by exactly one row when
  the game was not stored before, and by none when it was.
\<close>

theorem insertGame_idempotent:
  assumes t: "getTournamentData game = Inr tournament"
  shows "\<exists>cursor1 cursor2 gameId.
           insertGame cursor [game] = Inr (cursor1, 1) \<and>
           select_game_id cursor1 (tournament, tourn_game_id game) = Some gameId \<and>
           insertGame cursor1 [game] = Inr (cursor2, 1) \<and>
           cursor2 = print_line cursor1 (GameExists gameId) \<and>
           tables cursor2 = tables cursor1 \<and>
           select_game_id cursor2 (tournament, tourn_game_id game) = Some gameId \<and>
           length (tbl_game cursor2) =
             length (tbl_game cursor) +
             (if select_game_id cursor (tournament, tourn_game_id game) = None then 1 else 0)"
proof -
  let ?key = "(tournament, tourn_game_id game)"
  have "\<exists>cursor1 gameId.
          insertGame cursor [game] = Inr (cursor1, 1) \<and>
          select_game_id cursor1 ?key = Some gameId \<and>
          length (tbl_game cursor1) =
            length (tbl_game cursor) + (if select_game_id cursor ?key = None then 1 else 0)"
  proof (cases "select_game_id cursor ?key")
    case None
    from insertGame_fresh [OF t None] obtain cursor' b r where
      ids: "insertGame_teamIds cursor game = Inr (cursor', b, r)"
      and run: "insertGame cursor [game] =
             Inr (insert_game cursor' (tournament, tourn_game_id game, b, r, winning_team game), 1)"
      by blast
    from insertGame_teamIds_tbl_game [OF t ids] have same: "tbl_game cursor' = tbl_game cursor" .
    with None have "select_game_id cursor' ?key = None"
      by (simp add: select_game_id_def)
    then have "select_game_id (insert_game cursor' (tournament, tourn_game_id game, b, r, winning_team game)) ?key =
        Some (new_id (map game_id (tbl_game cursor')))"
      by (rule select_game_id_insert_game_new)
    moreover have "length (tbl_game (insert_game cursor' (tournament, tourn_game_id game, b, r, winning_team game))) =
        length (tbl_game cursor) + 1"
      using same by (simp add: insert_game_def)
    ultimately show ?thesis using run None by auto
  next
    case (Some gameId)
    from insertGame_found [OF t Some]
    have "insertGame cursor [game] = Inr (print_line cursor (GameExists gameId), 1)" .
    moreover have "select_game_id (print_line cursor (GameExists gameId)) ?key = Some gameId"
      using Some by (simp add: select_game_id_def print_line_def)
    moreover have "length (tbl_game (print_line cursor (GameExists gameId))) = length (tbl_game cursor)"
      by (simp add: print_line_def)
    ultimately show ?thesis using Some by auto
  qed
  then obtain cursor1 gameId where
    run1: "insertGame cursor [game] = Inr (cursor1, 1)"
    and g1: "select_game_id cursor1 ?key = Some gameId"
    and len: "length (tbl_game cursor1) =
            length (tbl_game cursor) + (if select_game_id cursor ?key = None then 1 else 0)"
    by blast
  let ?cursor2 = "print_line cursor1 (GameExists gameId)"
  have run2: "insertGame cursor1 [game] = Inr (?cursor2, 1)"
    using t g1 by (rule insertGame_found)
  have "tables ?cursor2 = tables cursor1" by simp
  moreover have "select_game_id ?cursor2 ?key = Some gameId"
    using g1 by (simp add: select_game_id_def print_line_def)
  moreover have "length (tbl_game ?cursor2) =
      length (tbl_game cursor) + (if select_game_id cursor ?key = None then 1 else 0)"
    using len by (simp add: print_line_def)
  ultimately show ?thesis using run1 g1 run2 by blast
qed

lemma empty_db_no_game: "select_game_id empty_db k = None"
  by (simp add: select_game_id_def empty_db_def)

theorem insertGame_idempotent_witness:
  "\<exists>cursor1 cursor2 gameId.
     insertGame empty_db [msi_2019] = Inr (cursor1, 1) \<and>
     select_game_id cursor1 (''2019/MSI'', 1) = Some gameId \<and>
     insertGame cursor1 [msi_2019] = Inr (cursor2, 1) \<and>
     select_game_id cursor2 (''2019/MSI'', 1) = Some gameId \<and>
     tables cursor2 = tables cursor1 \<and>
     length (tbl_game cursor2) = 1"
proof -
  have id: "tourn_game_id msi_2019 = 1" by (simp add: msi_2019_def)
  from insertGame_idempotent [OF msi_2019_key, of empty_db]
  obtain cursor1 cursor2 gameId where
    "insertGame empty_db [msi_2019] = Inr (cursor1, 1)"
    "select_game_id cursor1 (''2019/MSI'', tourn_game_id msi_2019) = Some gameId"
    "insertGame cursor1 [msi_2019] = Inr (cursor2, 1)"
    "tables cursor2 = tables cursor1"
    "select_game_id cursor2 (''2019/MSI'', tourn_game_id msi_2019) = Some gameId"
    "length (tbl_game cursor2) =
       length (tbl_game empty_db) +
       (if select_game_id empty_db (''2019/MSI'', tourn_game_id msi_2019) = None then 1 else 0)"
    by blast
  moreover have "length (tbl_game empty_db) = 0" by (simp add: empty_db_def)
  ultimately show ?thesis
    unfolding id by (intro exI conjI) (simp_all add: empty_db_no_game)
qed

text \<open>
  Claim C10 (status). A call of \<open>insertGame\<close>, \<open>insertTeam\<close>, \<open>insertBan\<close> or
  \<open>insertPick\<close> that returns, returns status 1. In particular \<open>insertGame\<close> on a
  record whose game is already stored changes no table and still returns 1.
\<close>

theorem status_is_always_1:
  "(insertGame cursor gameData = Inr (cursor', status) \<longrightarrow> status = 1) \<and>
   (insertTeam cursor gameData = Inr (cursor', status) \<longrightarrow> status = 1) \<and>
   (insertBan R cursor gameData = Inr (cursor', status) \<longrightarrow> status = 1) \<and>
   (insertPick R cursor gameData = Inr (cursor', status) \<longrightarrow> status = 1) \<and>
   (getTournamentData game = Inr tournament \<longrightarrow>
    select_game_id cursor (tournament, tourn_game_id game) = Some gameId \<longrightarrow>
    insertGame cursor [game] = Inr (print_line cursor (GameExists gameId), 1) \<and>
    tables (print_line cursor (GameExists gameId)) = tables cursor)"
proof (intro conjI impI)
  show "status = 1" if "insertGame cursor gameData = Inr (cursor', status)"
    using that by (auto simp: insertGame_def split: sum.splits)
  show "status = 1" if "insertTeam cursor gameData = Inr (cursor', status)"
    using that by (auto simp: insertTeam_def split: sum.splits)
  show "status = 1" if "insertBan R cursor gameData = Inr (cursor', status)"
    using that by (auto simp: insertBan_def split: sum.splits)
  show "status = 1" if "insertPick R cursor gameData = Inr (cursor', status)"
    using that by (auto simp: insertPick_def split: sum.splits)
  show "insertGame cursor [game] = Inr (print_line cursor (GameExists gameId), 1)"
    if "getTournamentData game = Inr tournament"
      and "select_game_id cursor (tournament, tourn_game_id game) = Some gameId"
    using that by (rule insertGame_found)
  show "tables (print_line cursor (GameExists gameId)) = tables cursor"
    by simp
qed

theorem status_is_always_1_witness:
  "insertGame msi_db [msi_2019] = Inr (print_line msi_db (GameExists 1), 1) \<and>
   tables (print_line msi_db (GameExists 1)) = tables msi_db \<and>
   insertTeam msi_db [] = Inr (msi_db, 1) \<and>
   insertBan example_resolver msi_db_bans [] = Inr (msi_db_bans, 1) \<and>
   insertPick example_resolver msi_db_picks [] = Inr (msi_db_picks, 1)"
proof -
  from status_is_always_1 [of msi_db "[msi_2019]" "print_line msi_db (GameExists 1)" 1
      example_resolver msi_2019 "''2019/MSI''" 1] msi_2019_key msi_db_game
  have "insertGame msi_db [msi_2019] = Inr (print_line msi_db (GameExists 1), 1) \<and>
    tables (print_line msi_db (GameExists 1)) = tables msi_db"
    by blast
  moreover have "insertTeam msi_db [] = Inr (msi_db, 1)"
    by (simp add: insertTeam_def)
  moreover have "insertBan example_resolver msi_db_bans [] = Inr (msi_db_bans, 1)"
    by (simp add: insertBan_def)
  moreover have "insertPick example_resolver msi_db_picks [] = Inr (msi_db_picks, 1)"
    by (simp add: insertPick_def)
  ultimately show ?thesis by blast
qed

text \<open>
  Claim C6 (recovery path of \<open>getGameId\<close>). The claim and the docstring say that a
  missing game is added and its new id returned. On the empty database the code prints
  the warning and raises \<open>NameError\<close> for the undefined name \<open>game\<close>; no row is
  added, and \<open>insertBan\<close> and \<open>insertPick\<close>, which call it, fail in the same way.
\<close>

theorem getGameId_missing_game:
  "getGameId empty_db msi_2019 =
     Inl (NameError ''game'', empty_db\<lparr>stdout := [GameNotFoundWarning]\<rparr>) \<and>
   insertBan example_resolver empty_db [msi_2019] =
     Inl (NameError ''game'', empty_db\<lparr>stdout := [GameNotFoundWarning]\<rparr>) \<and>
   insertPick example_resolver empty_db [msi_2019] =
     Inl (NameError ''game'', empty_db\<lparr>stdout := [GameNotFoundWarning]\<rparr>)"
proof -
  have g: "getGameId empty_db msi_2019 =
     Inl (NameError ''game'', empty_db\<lparr>stdout := [GameNotFoundWarning]\<rparr>)"
    using getGameId_missing [OF msi_2019_key empty_db_no_game]
    by (simp add: print_line_def empty_db_def)
  then show ?thesis
    by (simp add: insertBan_def insertPick_def msi_2019_key)
qed


lemma select_team_id_print_line [simp]:
  "select_team_id (print_line cursor line) n = select_team_id cursor n"
  by (simp add: select_team_id_def select_team_def print_line_def)

lemma team_count_print_line [simp]: "team_count (print_line cursor line) n = team_count cursor n"
  by (simp add: team_count_def print_line_def)

lemma select_team_id_insert_game [simp]:
  "select_team_id (insert_game cursor vals) n = select_team_id cursor n"
  by (cases vals) (simp add: select_team_id_def select_team_def insert_game_def)

lemma team_count_insert_game [simp]: "team_count (insert_game cursor vals) n = team_count cursor n"
  by (cases vals) (simp add: team_count_def insert_game_def)

lemma tbl_team_insert_game [simp]: "tbl_team (insert_game cursor vals) = tbl_team cursor"
  by (cases vals) (simp add: insert_game_def)

lemma select_team_id_insertTeam_teams_stable:
  "select_team_id cursor n = Some x \<Longrightarrow> select_team_id (insertTeam_teams cursor rgn ts) n = Some x"
  by (auto simp: select_team_id_def dest: select_team_insertTeam_teams_stable [where rgn = rgn and ts = ts])

lemma insertGame_teamIds_effect:
  assumes t: "getTournamentData game = Inr tournament"
    and run: "insertGame_teamIds cursor game = Inr (cursor', b, r)"
  shows "tbl_game cursor' = tbl_game cursor"
    and "\<exists>new. tbl_team cursor' = tbl_team cursor @ new"
    and "team_count cursor' n =
           (if n \<in> {blue_team game, red_team game} \<and> team_count cursor n = 0 then 1
            else team_count cursor n)"
    and "select_team_id cursor n = Some x \<Longrightarrow> select_team_id cursor' n = Some x"
    and "select_team_id cursor' (blue_team game) = Some b"
    and "select_team_id cursor' (red_team game) = Some r"
proof -
  let ?c = "insertTeam_teams (print_line cursor TeamNotFoundWarning)
              (team_region_of game) [blue_team game, red_team game]"
  from insertGame_teamIds_returns [OF t, of cursor] run
  have ids: "select_team_id cursor' (blue_team game) = Some b"
    "select_team_id cursor' (red_team game) = Some r"
    and c: "cursor' = cursor \<or> cursor' = ?c"
    by auto
  show "select_team_id cursor' (blue_team game) = Some b"
    and "select_team_id cursor' (red_team game) = Some r"
    by (rule ids)+
  show "tbl_game cursor' = tbl_game cursor"
    using t run by (rule insertGame_teamIds_tbl_game)
  show "\<exists>new. tbl_team cursor' = tbl_team cursor @ new"
  proof -
    from tbl_team_insertTeam_teams [of "print_line cursor TeamNotFoundWarning" "team_region_of game"
        "[blue_team game, red_team game]"]
    have "\<exists>new. tbl_team ?c = tbl_team cursor @ new" by (simp add: print_line_def)
    with c show ?thesis by auto
  qed
  show "team_count cursor' n =
           (if n \<in> {blue_team game, red_team game} \<and> team_count cursor n = 0 then 1
            else team_count cursor n)"
  proof -
    from c show ?thesis
    proof
      assume same: "cursor' = cursor"
      with ids have "select_team cursor (blue_team game) \<noteq> None" "select_team cursor (red_team game) \<noteq> None"
        by (auto simp: select_team_id_def)
      then have "team_count cursor (blue_team game) \<noteq> 0" "team_count cursor (red_team game) \<noteq> 0"
        by (simp_all add: select_team_None_iff)
      with same show ?thesis by auto
    next
      assume "cursor' = ?c"
      then show ?thesis
        by (simp add: team_count_insertTeam_teams del: insertTeam_teams.simps)
    qed
  qed
  show "select_team_id cursor' n = Some x" if "select_team_id cursor n = Some x"
  proof -
    from that have "select_team_id (print_line cursor TeamNotFoundWarning) n = Some x" by simp
    then have "select_team_id ?c n = Some x"
      by (rule select_team_id_insertTeam_teams_stable)
    with c that show ?thesis by auto
  qed
qed


lemma insertTeam_games_effect:
  assumes "insertTeam_games cursor gs = Inr cursor'"
  shows "(\<exists>new. tbl_team cursor' = tbl_team cursor @ new) \<and>
         (\<forall>n. team_count cursor' n =
                (if n \<in> (\<Union>g\<in>set gs. {blue_team g, red_team g}) \<and> team_count cursor n = 0 then 1
                 else team_count cursor n))"
  using assms
proof (induction gs arbitrary: cursor)
  case Nil
  then show ?case by simp
next
  case (Cons g gs)
  from insertTeam_games_Cons_Inr [OF Cons.prems] obtain rgn where
    step: "insertTeam_games (insertTeam_teams cursor rgn [blue_team g, red_team g]) gs = Inr cursor'" ..
  let ?c = "insertTeam_teams cursor rgn [blue_team g, red_team g]"
  from Cons.IH [OF step] obtain new2 where
    tbl2: "tbl_team cursor' = tbl_team ?c @ new2"
    and cnt2: "\<And>n. team_count cursor' n =
                (if n \<in> (\<Union>g\<in>set gs. {blue_team g, red_team g}) \<and> team_count ?c n = 0 then 1
                 else team_count ?c n)"
    by blast
  from tbl_team_insertTeam_teams [of cursor rgn "[blue_team g, red_team g]"] obtain new1 where
    tbl1: "tbl_team ?c = tbl_team cursor @ new1" ..
  have cnt1: "\<And>n. team_count ?c n =
      (if n \<in> {blue_team g, red_team g} \<and> team_count cursor n = 0 then 1 else team_count cursor n)"
    by (simp add: team_count_insertTeam_teams del: insertTeam_teams.simps)
  have "tbl_team cursor' = tbl_team cursor @ (new1 @ new2)"
    using tbl1 tbl2 by simp
  then have "\<exists>new. tbl_team cursor' = tbl_team cursor @ new" ..
  moreover have "\<forall>n. team_count cursor' n =
                (if n \<in> (\<Union>g\<in>set (g # gs). {blue_team g, red_team g}) \<and> team_count cursor n = 0 then 1
                 else team_count cursor n)"
  proof
    fix n
    show "team_count cursor' n =
                (if n \<in> (\<Union>g\<in>set (g # gs). {blue_team g, red_team g}) \<and> team_count cursor n = 0 then 1
                 else team_count cursor n)"
      unfolding cnt2 [of n] cnt1 [of n] by auto
  qed
  ultimately show ?case by blast
qed


lemma insertGame_two_fresh:
  assumes t1: "getTournamentData game1 = Inr tournament1"
    and t2: "getTournamentData game2 = Inr tournament2"
    and n1: "select_game_id cursor (tournament1, tourn_game_id game1) = None"
    and n2: "select_game_id cursor (tournament2, tourn_game_id game2) = None"
    and ne: "(tournament1, tourn_game_id game1) \<noteq> (tournament2, tourn_game_id game2)"
  shows "\<exists>cursor2 row1 row2.
           insertGame cursor [game1, game2] = Inr (cursor2, 1) \<and>
           (\<exists>new. tbl_team cursor2 = tbl_team cursor @ new) \<and>
           (\<forall>n. team_count cursor2 n =
                  (if n \<in> {blue_team game1, red_team game1, blue_team game2, red_team game2} \<and>
                      team_count cursor n = 0 then 1
                   else team_count cursor n)) \<and>
           find (\<lambda>r. game_tournament r = tournament1 \<and> game_tourn_game_id r = tourn_game_id game1)
             (tbl_game cursor2) = Some row1 \<and>
           find (\<lambda>r. game_tournament r = tournament2 \<and> game_tourn_game_id r = tourn_game_id game2)
             (tbl_game cursor2) = Some row2 \<and>
           select_team_id cursor2 (blue_team game1) = Some (game_blue_teamid row1) \<and>
           select_team_id cursor2 (red_team game1) = Some (game_red_teamid row1) \<and>
           select_team_id cursor2 (blue_team game2) = Some (game_blue_teamid row2) \<and>
           select_team_id cursor2 (red_team game2) = Some (game_red_teamid row2)"
proof -
  from insertGame_teamIds_returns [OF t1, of cursor] obtain c1 b1 r1 where
    run1: "insertGame_teamIds cursor game1 = Inr (c1, b1, r1)" by blast
  note e1 = insertGame_teamIds_effect [OF t1 run1]
  let ?row1 = "\<lparr>game_id = new_id (map game_id (tbl_game c1)), game_tournament = tournament1,
      game_tourn_game_id = tourn_game_id game1, game_blue_teamid = b1, game_red_teamid = r1,
      game_winning_team = winning_team game1\<rparr>"
  let ?c1 = "insert_game c1 (tournament1, tourn_game_id game1, b1, r1, winning_team game1)"
  have g1: "tbl_game ?c1 = tbl_game cursor @ [?row1]"
    using e1(1) by (simp add: insert_game_def)
  have f1: "find (\<lambda>r. game_tournament r = tournament1 \<and> game_tourn_game_id r = tourn_game_id game1)
      (tbl_game cursor) = None"
    and f2: "find (\<lambda>r. game_tournament r = tournament2 \<and> game_tourn_game_id r = tourn_game_id game2)
      (tbl_game cursor) = None"
    using n1 n2 by (simp_all add: select_game_id_def)
  have n2': "select_game_id ?c1 (tournament2, tourn_game_id game2) = None"
    using f2 ne by (auto simp: select_game_id_def g1 find_append)
  from insertGame_teamIds_returns [OF t2, of ?c1] obtain c2 b2 r2 where
    run2: "insertGame_teamIds ?c1 game2 = Inr (c2, b2, r2)" by blast
  note e2 = insertGame_teamIds_effect [OF t2 run2]
  let ?row2 = "\<lparr>game_id = new_id (map game_id (tbl_game c2)), game_tournament = tournament2,
      game_tourn_game_id = tourn_game_id game2, game_blue_teamid = b2, game_red_teamid = r2,
      game_winning_team = winning_team game2\<rparr>"
  let ?c2 = "insert_game c2 (tournament2, tourn_game_id game2, b2, r2, winning_team game2)"
  have g2: "tbl_game ?c2 = tbl_game cursor @ [?row1, ?row2]"
    using e2(1) g1 by (simp add: insert_game_def)
  have run: "insertGame cursor [game1, game2] = Inr (?c2, 1)"
    using t1 n1 run1 t2 n2' run2 by (simp add: insertGame_def)
  have team: "\<exists>new. tbl_team ?c2 = tbl_team cursor @ new"
  proof -
    from e1(2) obtain new1 where "tbl_team c1 = tbl_team cursor @ new1" ..
    moreover from e2(2) obtain new2 where "tbl_team c2 = tbl_team ?c1 @ new2" ..
    ultimately have "tbl_team ?c2 = tbl_team cursor @ (new1 @ new2)" by simp
    then show ?thesis ..
  qed
  have count: "\<forall>n. team_count ?c2 n =
                  (if n \<in> {blue_team game1, red_team game1, blue_team game2, red_team game2} \<and>
                      team_count cursor n = 0 then 1
                   else team_count cursor n)"
  proof
    fix n
    have "team_count ?c2 n = team_count c2 n" by simp
    also have "\<dots> = (if n \<in> {blue_team game2, red_team game2} \<and> team_count c1 n = 0 then 1
            else team_count c1 n)"
      using e2(3) [of n] by simp
    finally show "team_count ?c2 n =
                  (if n \<in> {blue_team game1, red_team game1, blue_team game2, red_team game2} \<and>
                      team_count cursor n = 0 then 1
                   else team_count cursor n)"
      unfolding e1(3) [of n] by auto
  qed
  have r1: "find (\<lambda>r. game_tournament r = tournament1 \<and> game_tourn_game_id r = tourn_game_id game1)
             (tbl_game ?c2) = Some ?row1"
    using f1 by (simp add: g2 find_append)
  have r2: "find (\<lambda>r. game_tournament r = tournament2 \<and> game_tourn_game_id r = tourn_game_id game2)
             (tbl_game ?c2) = Some ?row2"
    using f2 ne by (auto simp: g2 find_append)
  have "select_team_id ?c1 (blue_team game1) = Some b1"
    using e1(5) by simp
  then have k1: "select_team_id c2 (blue_team game1) = Some b1"
    by (rule e2(4))
  have "select_team_id ?c1 (red_team game1) = Some r1"
    using e1(6) by simp
  then have "select_team_id c2 (red_team game1) = Some r1"
    by (rule e2(4))
  with k1 have "select_team_id c2 (blue_team game1) = Some b1" "select_team_id c2 (red_team game1) = Some r1"
    by simp_all
  then have l1: "select_team_id ?c2 (blue_team game1) = Some (game_blue_teamid ?row1)"
    "select_team_id ?c2 (red_team game1) = Some (game_red_teamid ?row1)"
    by simp_all
  have l2: "select_team_id ?c2 (blue_team game2) = Some (game_blue_teamid ?row2)"
    "select_team_id ?c2 (red_team game2) = Some (game_red_teamid ?row2)"
    using e2(5,6) by simp_all
  from run team count r1 r2 l1 l2 show ?thesis by blast
qed


lemma insertGame_games_team_rows:
  assumes "insertGame_games cursor gs = Inr cursor'"
  shows "(\<exists>new. tbl_team cursor' = tbl_team cursor @ new) \<and>
         (\<forall>n. team_count cursor' n = team_count cursor n \<or>
              team_count cursor n = 0 \<and> team_count cursor' n = 1)"
  using assms
proof (induction gs arbitrary: cursor)
  case Nil
  then show ?case by simp
next
  case (Cons g gs)
  from Cons.prems obtain t where t: "getTournamentData g = Inr t"
    by (cases "getTournamentData g") auto
  have "\<exists>c. insertGame_games c gs = Inr cursor' \<and>
          (\<exists>new. tbl_team c = tbl_team cursor @ new) \<and>
          (\<forall>n. team_count c n = team_count cursor n \<or>
               team_count cursor n = 0 \<and> team_count c n = 1)"
  proof (cases "select_game_id cursor (t, tourn_game_id g)")
    case (Some result)
    with Cons.prems t
    have "insertGame_games (print_line cursor (GameExists result)) gs = Inr cursor'"
      by simp
    moreover have "tbl_team (print_line cursor (GameExists result)) = tbl_team cursor @ []"
      by (simp add: print_line_def)
    ultimately show ?thesis
      by (metis team_count_print_line)
  next
    case None
    from insertGame_teamIds_returns [OF t, of cursor] obtain c1 b r where
      ids: "insertGame_teamIds cursor g = Inr (c1, b, r)" by blast
    note e = insertGame_teamIds_effect [OF t ids]
    let ?c = "insert_game c1 (t, tourn_game_id g, b, r, winning_team g)"
    from Cons.prems t None ids have "insertGame_games ?c gs = Inr cursor'"
      by simp
    moreover from e(2) have "\<exists>new. tbl_team ?c = tbl_team cursor @ new"
      by simp
    moreover have "\<forall>n. team_count ?c n = team_count cursor n \<or>
               team_count cursor n = 0 \<and> team_count ?c n = 1"
      using e(3) by simp
    ultimately show ?thesis by blast
  qed
  then obtain c new1 where rest: "insertGame_games c gs = Inr cursor'"
    and tbl1: "tbl_team c = tbl_team cursor @ new1"
    and cnt1: "\<And>n. team_count c n = team_count cursor n \<or>
               team_count cursor n = 0 \<and> team_count c n = 1"
    by blast
  from Cons.IH [OF rest] obtain new2 where tbl2: "tbl_team cursor' = tbl_team c @ new2"
    and cnt2: "\<And>n. team_count cursor' n = team_count c n \<or>
               team_count c n = 0 \<and> team_count cursor' n = 1"
    by blast
  have "tbl_team cursor' = tbl_team cursor @ (new1 @ new2)"
    using tbl1 tbl2 by simp
  then have "\<exists>new. tbl_team cursor' = tbl_team cursor @ new" ..
  moreover have "\<forall>n. team_count cursor' n = team_count cursor n \<or>
              team_count cursor n = 0 \<and> team_count cursor' n = 1"
  proof
    fix n
    from cnt1 [of n] cnt2 [of n]
    show "team_count cursor' n = team_count cursor n \<or>
              team_count cursor n = 0 \<and> team_count cursor' n = 1"
      by auto
  qed
  ultimately show ?case by blast
qed

text \<open>
  Claim C9 (one row per team name). Whenever \<open>insertTeam\<close> returns, for any list of
  records, the \<open>team\<close> table is the old table followed by new rows, and the number of
  rows with a given name is what it was, except that it is 1 for a name of one of the
  records that had no row: a team is inserted only when no row has its name, and no row
  is changed or removed. Whenever \<open>insertGame\<close> returns, for any list of records, it
  has likewise only appended \<open>team\<close> rows, and at most one for a name that had none.
  When \<open>insertGame\<close> stores two new games, the counts are as for \<open>insertTeam\<close>, and
  each of the two \<open>game\<close> rows references, for each of its sides, the id that the
  lookup by \<open>display_name\<close> gives: two games that name the same team reference the
  same id.
\<close>

theorem team_display_name_unique:
  "(insertTeam cursor gameData = Inr (cursor', status) \<longrightarrow>
      (\<exists>new. tbl_team cursor' = tbl_team cursor @ new) \<and>
      (\<forall>n. team_count cursor' n =
             (if n \<in> (\<Union>g\<in>set gameData. {blue_team g, red_team g}) \<and> team_count cursor n = 0 then 1
              else team_count cursor n))) \<and>
   (insertGame cursor gameData = Inr (cursor', status) \<longrightarrow>
      (\<exists>new. tbl_team cursor' = tbl_team cursor @ new) \<and>
      (\<forall>n. team_count cursor' n = team_count cursor n \<or>
           team_count cursor n = 0 \<and> team_count cursor' n = 1)) \<and>
   (getTournamentData game1 = Inr tournament1 \<longrightarrow>
    getTournamentData game2 = Inr tournament2 \<longrightarrow>
    select_game_id cursor (tournament1, tourn_game_id game1) = None \<longrightarrow>
    select_game_id cursor (tournament2, tourn_game_id game2) = None \<longrightarrow>
    (tournament1, tourn_game_id game1) \<noteq> (tournament2, tourn_game_id game2) \<longrightarrow>
      (\<exists>cursor2 row1 row2.
         insertGame cursor [game1, game2] = Inr (cursor2, 1) \<and>
         (\<exists>new. tbl_team cursor2 = tbl_team cursor @ new) \<and>
         (\<forall>n. team_count cursor2 n =
                (if n \<in> {blue_team game1, red_team game1, blue_team game2, red_team game2} \<and>
                    team_count cursor n = 0 then 1
                 else team_count cursor n)) \<and>
         find (\<lambda>r. game_tournament r = tournament1 \<and> game_tourn_game_id r = tourn_game_id game1)
           (tbl_game cursor2) = Some row1 \<and>
         find (\<lambda>r. game_tournament r = tournament2 \<and> game_tourn_game_id r = tourn_game_id game2)
           (tbl_game cursor2) = Some row2 \<and>
         select_team_id cursor2 (blue_team game1) = Some (game_blue_teamid row1) \<and>
         select_team_id cursor2 (red_team game1) = Some (game_red_teamid row1) \<and>
         select_team_id cursor2 (blue_team game2) = Some (game_blue_teamid row2) \<and>
         select_team_id cursor2 (red_team game2) = Some (game_red_teamid row2)))"
proof (intro conjI impI)
  assume "insertTeam cursor gameData = Inr (cursor', status)"
  then have "insertTeam_games cursor gameData = Inr cursor'"
    by (auto simp: insertTeam_def split: sum.splits)
  from insertTeam_games_effect [OF this]
  show "\<exists>new. tbl_team cursor' = tbl_team cursor @ new"
    and "\<forall>n. team_count cursor' n =
             (if n \<in> (\<Union>g\<in>set gameData. {blue_team g, red_team g}) \<and> team_count cursor n = 0 then 1
              else team_count cursor n)"
    by blast+
next
  assume "insertGame cursor gameData = Inr (cursor', status)"
  then have "insertGame_games cursor gameData = Inr cursor'"
    by (auto simp: insertGame_def split: sum.splits)
  from insertGame_games_team_rows [OF this]
  show "\<exists>new. tbl_team cursor' = tbl_team cursor @ new"
    and "\<forall>n. team_count cursor' n = team_count cursor n \<or>
           team_count cursor n = 0 \<and> team_count cursor' n = 1"
    by blast+
next
  assume "getTournamentData game1 = Inr tournament1"
    and "getTournamentData game2 = Inr tournament2"
    and "select_game_id cursor (tournament1, tourn_game_id game1) = None"
    and "select_game_id cursor (tournament2, tourn_game_id game2) = None"
    and "(tournament1, tourn_game_id game1) \<noteq> (tournament2, tourn_game_id game2)"
  then show "\<exists>cursor2 row1 row2.
         insertGame cursor [game1, game2] = Inr (cursor2, 1) \<and>
         (\<exists>new. tbl_team cursor2 = tbl_team cursor @ new) \<and>
         (\<forall>n. team_count cursor2 n =
                (if n \<in> {blue_team game1, red_team game1, blue_team game2, red_team game2} \<and>
                    team_count cursor n = 0 then 1
                 else team_count cursor n)) \<and>
         find (\<lambda>r. game_tournament r = tournament1 \<and> game_tourn_game_id r = tourn_game_id game1)
           (tbl_game cursor2) = Some row1 \<and>
         find (\<lambda>r. game_tournament r = tournament2 \<and> game_tourn_game_id r = tourn_game_id game2)
           (tbl_game cursor2) = Some row2 \<and>
         select_team_id cursor2 (blue_team game1) = Some (game_blue_teamid row1) \<and>
         select_team_id cursor2 (red_team game1) = Some (game_red_teamid row1) \<and>
         select_team_id cursor2 (blue_team game2) = Some (game_blue_teamid row2) \<and>
         select_team_id cursor2 (red_team game2) = Some (game_red_teamid row2)"
    by (rule insertGame_two_fresh)
qed

lemma eu_summer_2017_key: "getTournamentData eu_summer_2017 = Inr ''2017/Summer/EU''"
  by code_simp

lemma insertTeam_example:
  "insertTeam empty_db [msi_2019, eu_summer_2017] = Inr (empty_db\<lparr>tbl_team := three_teams\<rparr>, 1)"
  by (simp add: insertTeam_def empty_db_def msi_2019_def eu_summer_2017_def select_team_def
      insert_team_def new_id_def dict_get_def regionsDict_def three_teams_def)

theorem team_display_name_unique_witness:
  "(\<exists>new. insertTeam empty_db [msi_2019, eu_summer_2017] = Inr (empty_db\<lparr>tbl_team := three_teams\<rparr>, 1) \<and>
      tbl_team (empty_db\<lparr>tbl_team := three_teams\<rparr>) = tbl_team empty_db @ new \<and>
      team_count (empty_db\<lparr>tbl_team := three_teams\<rparr>) ''G2 Esports'' = 1) \<and>
   (\<exists>cursor2 row1 row2.
      insertGame empty_db [msi_2019, eu_summer_2017] = Inr (cursor2, 1) \<and>
      (\<exists>new. tbl_team cursor2 = tbl_team empty_db @ new) \<and>
      team_count cursor2 ''G2 Esports'' = 1 \<and>
      find (\<lambda>r. game_tournament r = ''2019/MSI'' \<and> game_tourn_game_id r = 1) (tbl_game cursor2) = Some row1 \<and>
      find (\<lambda>r. game_tournament r = ''2017/Summer/EU'' \<and> game_tourn_game_id r = 7) (tbl_game cursor2) = Some row2 \<and>
      game_blue_teamid row1 = game_red_teamid row2)"
proof -
  note inst = team_display_name_unique [of empty_db "[msi_2019, eu_summer_2017]"
      "empty_db\<lparr>tbl_team := three_teams\<rparr>" 1 msi_2019 "''2019/MSI''" eu_summer_2017 "''2017/Summer/EU''"]
  have c0: "team_count empty_db n = 0" for n
    by (simp add: team_count_def empty_db_def)
  have names: "blue_team msi_2019 = ''G2 Esports''" "red_team eu_summer_2017 = ''G2 Esports''"
    "tourn_game_id msi_2019 = 1" "tourn_game_id eu_summer_2017 = 7"
    by (simp_all add: msi_2019_def eu_summer_2017_def)
  from inst [THEN conjunct1] insertTeam_example
  have "(\<exists>new. tbl_team (empty_db\<lparr>tbl_team := three_teams\<rparr>) = tbl_team empty_db @ new) \<and>
      (\<forall>n. team_count (empty_db\<lparr>tbl_team := three_teams\<rparr>) n =
             (if n \<in> (\<Union>g\<in>set [msi_2019, eu_summer_2017]. {blue_team g, red_team g}) \<and>
                 team_count empty_db n = 0 then 1
              else team_count empty_db n))"
    by blast
  then obtain new where pre: "tbl_team (empty_db\<lparr>tbl_team := three_teams\<rparr>) = tbl_team empty_db @ new"
    and g2: "team_count (empty_db\<lparr>tbl_team := three_teams\<rparr>) ''G2 Esports'' =
             (if ''G2 Esports'' \<in> (\<Union>g\<in>set [msi_2019, eu_summer_2017]. {blue_team g, red_team g}) \<and>
                 team_count empty_db ''G2 Esports'' = 0 then 1
              else team_count empty_db ''G2 Esports'')"
    by blast
  from g2 have "team_count (empty_db\<lparr>tbl_team := three_teams\<rparr>) ''G2 Esports'' = 1"
    by (simp add: c0 names)
  with insertTeam_example pre
  have part1: "\<exists>new. insertTeam empty_db [msi_2019, eu_summer_2017] = Inr (empty_db\<lparr>tbl_team := three_teams\<rparr>, 1) \<and>
      tbl_team (empty_db\<lparr>tbl_team := three_teams\<rparr>) = tbl_team empty_db @ new \<and>
      team_count (empty_db\<lparr>tbl_team := three_teams\<rparr>) ''G2 Esports'' = 1"
    by (intro exI conjI)
  from inst [THEN conjunct2, THEN conjunct2, rule_format,
      OF msi_2019_key eu_summer_2017_key empty_db_no_game empty_db_no_game]
  obtain cursor2 row1 row2 where
    run: "insertGame empty_db [msi_2019, eu_summer_2017] = Inr (cursor2, 1)"
    and cnt: "\<forall>n. team_count cursor2 n =
                (if n \<in> {blue_team msi_2019, red_team msi_2019, blue_team eu_summer_2017, red_team eu_summer_2017} \<and>
                    team_count empty_db n = 0 then 1
                 else team_count empty_db n)"
    and f1: "find (\<lambda>r. game_tournament r = ''2019/MSI'' \<and> game_tourn_game_id r = tourn_game_id msi_2019)
           (tbl_game cursor2) = Some row1"
    and f2: "find (\<lambda>r. game_tournament r = ''2017/Summer/EU'' \<and> game_tourn_game_id r = tourn_game_id eu_summer_2017)
           (tbl_game cursor2) = Some row2"
    and b1: "select_team_id cursor2 (blue_team msi_2019) = Some (game_blue_teamid row1)"
    and r2: "select_team_id cursor2 (red_team eu_summer_2017) = Some (game_red_teamid row2)"
    by auto
  from b1 r2 have same: "game_blue_teamid row1 = game_red_teamid row2"
    by (simp add: names)
  from cnt [rule_format, of "''G2 Esports''"] have one: "team_count cursor2 ''G2 Esports'' = 1"
    by (simp add: c0 names)
  from team_display_name_unique [of empty_db "[msi_2019, eu_summer_2017]" cursor2 1,
      THEN conjunct2, THEN conjunct1] run
  have kept: "\<exists>new. tbl_team cursor2 = tbl_team empty_db @ new"
    by blast
  from run kept one f1 f2 same have "
      insertGame empty_db [msi_2019, eu_summer_2017] = Inr (cursor2, 1) \<and>
      (\<exists>new. tbl_team cursor2 = tbl_team empty_db @ new) \<and>
      team_count cursor2 ''G2 Esports'' = 1 \<and>
      find (\<lambda>r. game_tournament r = ''2019/MSI'' \<and> game_tourn_game_id r = 1) (tbl_game cursor2) = Some row1 \<and>
      find (\<lambda>r. game_tournament r = ''2017/Summer/EU'' \<and> game_tourn_game_id r = 7) (tbl_game cursor2) = Some row2 \<and>
      game_blue_teamid row1 = game_red_teamid row2"
    unfolding names by (intro conjI)
  then have "\<exists>cursor2 row1 row2.
      insertGame empty_db [msi_2019, eu_summer_2017] = Inr (cursor2, 1) \<and>
      (\<exists>new. tbl_team cursor2 = tbl_team empty_db @ new) \<and>
      team_count cursor2 ''G2 Esports'' = 1 \<and>
      find (\<lambda>r. game_tournament r = ''2019/MSI'' \<and> game_tourn_game_id r = 1) (tbl_game cursor2) = Some row1 \<and>
      find (\<lambda>r. game_tournament r = ''2017/Summer/EU'' \<and> game_tourn_game_id r = 7) (tbl_game cursor2) = Some row2 \<and>
      game_blue_teamid row1 = game_red_teamid row2"
    by (intro exI)
  with part1 show ?thesis by (rule conjI)
qed


section \<open>The loop of insertGame has no bound\<close>

lemma select_team_n_null [simp]: "select_team_n cursor None = None"
  by (simp add: select_team_n_def find_None_iff sql_eq_def split: option.splits)

lemma select_team_id_n_null [simp]: "select_team_id_n cursor None = None"
  by (simp add: select_team_id_n_def)























end
